theory Spec2Isabelle
  imports Complex_Main
begin

section \<open>Data of the report client\<close>

text \<open>
  The repository is an asynchronous client (\<^verbatim>\<open>app/api.py\<close>) of a report service: class
  \<^verbatim>\<open>ReportCreator\<close> posts requests that create reports, class \<^verbatim>\<open>ReportChecker\<close> polls one
  report until it is ready, and both inherit \<^verbatim>\<open>connect\<close>, \<^verbatim>\<open>_run\<close> and \<^verbatim>\<open>_check_response\<close>
  from \<^verbatim>\<open>ReportBase\<close>.

  Everything the code does to the outside is written to a trace of events, in the order in
  which it happens; everything it receives from the outside (the replies of the server,
  the identifiers drawn by \<^verbatim>\<open>uuid.uuid4\<close>, the readings of \<^verbatim>\<open>datetime.utcnow\<close>) is read
  from an environment, by position. Seconds and timestamps are rationals: the rounding of
  Python's floats is not modelled.
\<close>

datatype json =
    JNull
  | JBool bool
  | JNumber rat
  | JString string
  | JArray "json list"
  | JObject "(string \<times> json) list"

text \<open>
  What the code reads of an \<^verbatim>\<open>httpx.Response\<close>: \<^verbatim>\<open>status_code\<close>, \<^verbatim>\<open>text\<close>,
  \<^verbatim>\<open>headers['date']\<close> (\<open>None\<close>: no such header) and \<^verbatim>\<open>json()\<close> (\<open>None\<close>: the body does
  not decode).
\<close>

record response =
  status_code :: int
  response_text :: string
  date_header :: "string option"
  json_body :: "json option"

text \<open>What awaiting a request of the client gives: a response, or an exception of the transport.\<close>

datatype reply = Reply response | ConnectTimedOut | ReadTimedOut

text \<open>
  The exceptions that travel through the code. \<open>SystemExit\<close> carries its \<^verbatim>\<open>code\<close>
  (\<open>None\<close> for \<^verbatim>\<open>SystemExit()\<close>).
\<close>

datatype exn =
    HTTPStatusError response
  | UnexpectedAPIStatusCode response
  | TooMuchTimePassed string
  | ConnectTimeout
  | ReadTimeout
  | SystemExit "int option"
  | KeyError string
  | ValueError
  | TypeError
  | JSONDecodeError

text \<open>
  The value of a call: it returns, it raises, or the bound on the depth of the calls was
  reached before it finished (then the trace is what had happened until there).
\<close>

datatype 'a result = Return 'a | Raise exn | Unfinished

datatype level = DEBUG | INFO | WARNING | ERROR

text \<open>
  A logged message: a string, an exception object, or one of the templates of
  \<^verbatim>\<open>settings.py\<close> with the arguments of its \<^verbatim>\<open>format\<close>.
\<close>

datatype message =
    Text string
  | Exc exn
  | POST_REQUEST_WAS_SENT_SUCCESSFULLY_MESSAGE string rat
  | REPORT_SUCCESSFULLY_RETRIEVED_MESSAGE string
  | REPORT_STILL_NOT_AVAILABLE_MESSAGE string rat nat

text \<open>
  \<open>Gather report_id timestamp_created sleep\<close> is
  \<^verbatim>\<open>ReportChecker(report_id, timestamp_created).connect(sleep)\<close> handed to
  \<^verbatim>\<open>asyncio.gather\<close>; \<open>Write line\<close> is \<^verbatim>\<open>file.write(line)\<close> on \<^verbatim>\<open>results.csv\<close> opened for
  appending.
\<close>

datatype event =
    Sleep rat
  | Post string
  | Get string
  | Log level message
  | Write string
  | Gather string rat bool

record env =
  server :: "nat \<Rightarrow> reply"
  uuid4 :: "nat \<Rightarrow> string"
  utcnow :: "nat \<Rightarrow> rat"
  strptime :: "string \<Rightarrow> rat option"
  float_str :: "rat \<Rightarrow> string"
  json_str :: "json \<Rightarrow> string"

record world =
  requests :: nat
  uuids_drawn :: nat
  clock_reads :: nat
  trace :: "event list"

definition emit :: "event \<Rightarrow> world \<Rightarrow> world" where
  "emit ev w = w\<lparr>trace := trace w @ [ev]\<rparr>"

fun and_then :: "'a result \<times> world \<Rightarrow> ('a \<Rightarrow> world \<Rightarrow> 'b result \<times> world) \<Rightarrow> 'b result \<times> world" where
  "and_then (Return x, w) f = f x w"
| "and_then (Raise ex, w) f = (Raise ex, w)"
| "and_then (Unfinished, w) f = (Unfinished, w)"

section \<open>settings.py\<close>

definition MIN_TIME_FOR_RETRIEVING_REPORT_IN_SECONDS :: rat where
  "MIN_TIME_FOR_RETRIEVING_REPORT_IN_SECONDS = 30"

definition MAX_TIME_FOR_RETRIEVING_REPORT_IN_SECONDS :: rat where
  "MAX_TIME_FOR_RETRIEVING_REPORT_IN_SECONDS = 300"

definition TIME_BETWEEN_REQUESTS_FOR_CREATING_REPORTS_IN_SECONDS :: rat where
  "TIME_BETWEEN_REQUESTS_FOR_CREATING_REPORTS_IN_SECONDS = 60"

definition TIME_BETWEEN_GET_REQUESTS_IN_SECONDS :: rat where
  "TIME_BETWEEN_GET_REQUESTS_IN_SECONDS = 8 / 10"

definition REPORT_RETRIEVED_STATUS_CODE :: int where
  "REPORT_RETRIEVED_STATUS_CODE = 200"

definition REQUESTS_FOR_CREATING_REPORT_SUCCESSFULLY_SENT_STATUS_CODE :: int where
  "REQUESTS_FOR_CREATING_REPORT_SUCCESSFULLY_SENT_STATUS_CODE = 201"

definition REPORT_STILL_NOT_AVAILABLE_STATUS_CODE :: int where
  "REPORT_STILL_NOT_AVAILABLE_STATUS_CODE = 202"

definition REPORT_ALREADY_EXISTS_STATUS_CODE :: int where
  "REPORT_ALREADY_EXISTS_STATUS_CODE = 409"

definition TRYING_AGAIN_MESSAGE :: string where
  "TRYING_AGAIN_MESSAGE = CHR 0x0A # ''Trying again...''"

definition CONNECTION_FAILED_MESSAGE :: string where
  "CONNECTION_FAILED_MESSAGE = ''Connection failed. '' @ TRYING_AGAIN_MESSAGE"

text \<open>
  \<^verbatim>\<open>LINE_FOR_CSV = "{timestamp};{value}\\n\n"\<close>: in the Python literal \<^verbatim>\<open>\\\<close> is one
  backslash (0x5C) and \<^verbatim>\<open>\n\<close> is a line feed (0x0A).
\<close>

definition LINE_FOR_CSV :: string where
  "LINE_FOR_CSV = ''{timestamp};{value}'' @ [CHR 0x5C, CHR ''n'', CHR 0x0A]"

section \<open>Library functions the code calls\<close>

text \<open>
  \<^verbatim>\<open>str.format\<close> with keyword arguments, for templates of literal text, \<^verbatim>\<open>{name}\<close> fields
  and the escapes \<^verbatim>\<open>{{\<close> and \<^verbatim>\<open>}}\<close>. The second argument is the field being read
  (\<open>None\<close> outside a field).
\<close>

fun format_from :: "(string \<times> string) list \<Rightarrow> string option \<Rightarrow> string \<Rightarrow> string result" where
  "format_from kw None [] = Return []"
| "format_from kw (Some name) [] = Raise ValueError"
| "format_from kw None [c] =
     (if c = CHR ''{'' \<or> c = CHR ''}'' then Raise ValueError else Return [c])"
| "format_from kw None (c # d # cs) =
     (if c = CHR ''{'' then
        (if d = CHR ''{'' then
           (case format_from kw None cs of Return s \<Rightarrow> Return (c # s) | r \<Rightarrow> r)
         else format_from kw (Some []) (d # cs))
      else if c = CHR ''}'' then
        (if d = CHR ''}'' then
           (case format_from kw None cs of Return s \<Rightarrow> Return (c # s) | r \<Rightarrow> r)
         else Raise ValueError)
      else (case format_from kw None (d # cs) of Return s \<Rightarrow> Return (c # s) | r \<Rightarrow> r))"
| "format_from kw (Some name) (c # cs) =
     (if c = CHR ''}'' then
        (case map_of kw name of
           None \<Rightarrow> Raise (KeyError name)
         | Some v \<Rightarrow> (case format_from kw None cs of Return s \<Rightarrow> Return (v @ s) | r \<Rightarrow> r))
      else format_from kw (Some (name @ [c])) cs)"

definition format :: "string \<Rightarrow> (string \<times> string) list \<Rightarrow> string result" where
  "format template kw = format_from kw None template"

text \<open>\<^verbatim>\<open>str.rstrip()\<close>: the white space of Python among the characters below 256.\<close>

definition isspace :: "char \<Rightarrow> bool" where
  "isspace c = (of_char c \<in> set [9, 10, 11, 12, 13, 28, 29, 30, 31, 32, 133, 160 :: nat])"

definition rstrip :: "string \<Rightarrow> string" where
  "rstrip s = rev (dropWhile isspace (rev s))"

text \<open>\<^verbatim>\<open>round(x, 1)\<close>: to the nearest tenth, a tie to the even one.\<close>

definition round1 :: "rat \<Rightarrow> rat" where
  "round1 x =
     (let y = x * 10; f = \<lfloor>y\<rfloor>; d = y - of_int f
      in (if d < 1 / 2 then of_int f
          else if 1 / 2 < d then of_int (f + 1)
          else if even f then of_int f else of_int (f + 1)) / 10)"

text \<open>
  \<^verbatim>\<open>response.raise_for_status()\<close> of httpx (from 0.20 on) raises \<^verbatim>\<open>HTTPStatusError\<close> for
  every response that is not a success, and a success is a status code from 200 to 299.
\<close>

definition is_success :: "response \<Rightarrow> bool" where
  "is_success r = (200 \<le> status_code r \<and> status_code r \<le> 299)"

definition raise_for_status :: "response \<Rightarrow> unit result" where
  "raise_for_status r = (if is_success r then Return () else Raise (HTTPStatusError r))"


section \<open>api.py: ReportBase\<close>

text \<open>
  \<^verbatim>\<open>ReportBase._check_response\<close>, with the \<^verbatim>\<open>_expected_2xx_status_codes\<close> of the class of
  \<^verbatim>\<open>self\<close> as its first argument.
\<close>

definition ReportBase_check_response :: "int list \<Rightarrow> response \<Rightarrow> unit result" where
  "ReportBase_check_response expected_2xx_status_codes response =
     (case raise_for_status response of
        Return _ \<Rightarrow>
          (if status_code response \<notin> set expected_2xx_status_codes
           then Raise (UnexpectedAPIStatusCode response)
           else Return ())
      | r \<Rightarrow> r)"

text \<open>\<^verbatim>\<open>ReportBase._check_exception\<close>: \<^verbatim>\<open>pass\<close>.\<close>

definition ReportBase_check_exception :: "response \<Rightarrow> world \<Rightarrow> unit result \<times> world" where
  "ReportBase_check_exception r w = (Return (), w)"

text \<open>
  \<^verbatim>\<open>ReportBase._run\<close>. The methods it calls on \<^verbatim>\<open>self\<close> are arguments: the sleeping time of
  the class, \<^verbatim>\<open>self._send_request\<close> and \<^verbatim>\<open>self._check_exception\<close> (given the response that
  the \<^verbatim>\<open>HTTPStatusError\<close> carries).
\<close>

definition ReportBase_run ::
  "rat \<Rightarrow> (world \<Rightarrow> unit result \<times> world) \<Rightarrow> (response \<Rightarrow> world \<Rightarrow> unit result \<times> world)
     \<Rightarrow> bool \<Rightarrow> world \<Rightarrow> unit result \<times> world" where
  "ReportBase_run sleeping_time send_request check_exception sleep w =
     (let w1 = (if sleep then emit (Sleep sleeping_time) w else w)
      in case send_request w1 of
           (Raise (HTTPStatusError r), w2) \<Rightarrow>
             check_exception r (emit (Log ERROR (Exc (HTTPStatusError r))) w2)
         | (Raise (UnexpectedAPIStatusCode r), w2) \<Rightarrow>
             (Raise (SystemExit None), emit (Log ERROR (Exc (UnexpectedAPIStatusCode r))) w2)
         | other \<Rightarrow> other)"

text \<open>
  \<^verbatim>\<open>ReportBase.connect\<close>, with \<^verbatim>\<open>self._run\<close> as an argument. The first argument bounds the
  number of times the connection is made again.
\<close>

primrec ReportBase_connect ::
  "nat \<Rightarrow> (bool \<Rightarrow> world \<Rightarrow> unit result \<times> world) \<Rightarrow> bool \<Rightarrow> world \<Rightarrow> unit result \<times> world" where
  "ReportBase_connect 0 run sleep w = (Unfinished, w)"
| "ReportBase_connect (Suc n) run sleep w =
     (case run sleep w of
        (Raise ConnectTimeout, w1) \<Rightarrow>
          ReportBase_connect n run sleep (emit (Log WARNING (Text CONNECTION_FAILED_MESSAGE)) w1)
      | other \<Rightarrow> other)"

section \<open>api.py: ReportCreator\<close>

definition ReportCreator_expected_2xx_status_codes :: "int list" where
  "ReportCreator_expected_2xx_status_codes =
     [REQUESTS_FOR_CREATING_REPORT_SUCCESSFULLY_SENT_STATUS_CODE]"

definition ReportCreator_sleeping_time :: rat where
  "ReportCreator_sleeping_time = TIME_BETWEEN_REQUESTS_FOR_CREATING_REPORTS_IN_SECONDS"

text \<open>
  \<^verbatim>\<open>ReportCreator.__get_timestamp_from_response\<close>. \<open>strptime e\<close> stands for
  \<^verbatim>\<open>datetime.strptime(_, '%a, %d %b %Y %H:%M:%S %Z').timestamp()\<close>, \<open>None\<close> where the string
  does not match the format.
\<close>

definition ReportCreator_get_timestamp_from_response :: "env \<Rightarrow> response \<Rightarrow> rat result" where
  "ReportCreator_get_timestamp_from_response e response =
     (case date_header response of
        None \<Rightarrow> Raise (KeyError ''date'')
      | Some datetime_created_str \<Rightarrow>
          (case strptime e datetime_created_str of
             None \<Rightarrow> Raise ValueError
           | Some datetime_created \<Rightarrow> Return datetime_created))"

text \<open>
  \<^verbatim>\<open>ReportCreator._send_request\<close>, with \<^verbatim>\<open>self._run\<close> as an argument. Of
  \<^verbatim>\<open>asyncio.gather(report_checker.connect(sleep=True), self._run())\<close> the model records that
  the checker was handed over (the event \<open>Gather\<close>) and goes on with \<^verbatim>\<open>self._run()\<close>, whose
  parameter \<^verbatim>\<open>sleep\<close> has the default \<^verbatim>\<open>True\<close>. The checker is a task of its own, modelled
  by \<open>ReportChecker_connect\<close> below; how the two tasks interleave is not modelled.
\<close>

definition ReportCreator_send_request ::
  "env \<Rightarrow> (bool \<Rightarrow> world \<Rightarrow> unit result \<times> world) \<Rightarrow> world \<Rightarrow> unit result \<times> world" where
  "ReportCreator_send_request e self_run w =
     (let report_id = uuid4 e (uuids_drawn w);
          w1 = emit (Post report_id) (w\<lparr>uuids_drawn := uuids_drawn w + 1\<rparr>);
          w2 = w1\<lparr>requests := requests w + 1\<rparr>
      in case server e (requests w) of
           ConnectTimedOut \<Rightarrow> (Raise ConnectTimeout, w2)
         | ReadTimedOut \<Rightarrow> (Raise ReadTimeout, w2)
         | Reply response \<Rightarrow>
             and_then (ReportBase_check_response ReportCreator_expected_2xx_status_codes response, w2)
               (\<lambda>_ w3. and_then (ReportCreator_get_timestamp_from_response e response, w3)
                 (\<lambda>datetime_created w4.
                    let w5 = emit (Log INFO (POST_REQUEST_WAS_SENT_SUCCESSFULLY_MESSAGE report_id
                                      MIN_TIME_FOR_RETRIEVING_REPORT_IN_SECONDS)) w4;
                        w6 = emit (Gather report_id datetime_created True) w5
                    in self_run True w6)))"

text \<open>\<^verbatim>\<open>ReportCreator._check_exception\<close>, with \<^verbatim>\<open>self._run\<close> as an argument.\<close>

definition ReportCreator_check_exception ::
  "(bool \<Rightarrow> world \<Rightarrow> unit result \<times> world) \<Rightarrow> response \<Rightarrow> world \<Rightarrow> unit result \<times> world" where
  "ReportCreator_check_exception self_run ex_response w =
     (let status_code = status_code ex_response;
          response_text = rstrip (response_text ex_response)
      in if status_code = REPORT_ALREADY_EXISTS_STATUS_CODE
         then self_run False (emit (Log WARNING (Text (response_text @ TRYING_AGAIN_MESSAGE))) w)
         else (Raise (SystemExit (Some 0)), emit (Log WARNING (Text response_text)) w))"

text \<open>
  \<^verbatim>\<open>_run\<close> of a \<^verbatim>\<open>ReportCreator\<close>: \<^verbatim>\<open>ReportBase._run\<close> with the methods of the class. The
  first argument bounds the depth of the calls of \<^verbatim>\<open>_run\<close>; it is a bound of the model
  only, and the recursion limit of the interpreter is not modelled.
\<close>

primrec ReportCreator_run :: "nat \<Rightarrow> env \<Rightarrow> bool \<Rightarrow> world \<Rightarrow> unit result \<times> world" where
  "ReportCreator_run 0 e sleep w = (Unfinished, w)"
| "ReportCreator_run (Suc n) e sleep w =
     ReportBase_run ReportCreator_sleeping_time
       (ReportCreator_send_request e (ReportCreator_run n e))
       (ReportCreator_check_exception (ReportCreator_run n e))
       sleep w"

definition ReportCreator_connect :: "nat \<Rightarrow> env \<Rightarrow> bool \<Rightarrow> world \<Rightarrow> unit result \<times> world" where
  "ReportCreator_connect n e sleep w = ReportBase_connect n (ReportCreator_run n e) sleep w"

section \<open>api.py: ReportChecker\<close>

text \<open>
  The fields \<^verbatim>\<open>__report_id\<close> and \<^verbatim>\<open>__timestamp_created\<close> of \<^verbatim>\<open>self\<close> are the arguments
  \<open>report_id\<close> and \<open>timestamp_created\<close>.
\<close>

definition ReportChecker_expected_2xx_status_codes :: "int list" where
  "ReportChecker_expected_2xx_status_codes =
     [REPORT_RETRIEVED_STATUS_CODE, REPORT_STILL_NOT_AVAILABLE_STATUS_CODE]"

definition ReportChecker_sleeping_time :: rat where
  "ReportChecker_sleeping_time = MIN_TIME_FOR_RETRIEVING_REPORT_IN_SECONDS"

definition ReportChecker_make_request_and_check_response ::
  "env \<Rightarrow> string \<Rightarrow> world \<Rightarrow> response result \<times> world" where
  "ReportChecker_make_request_and_check_response e report_id w =
     (let w1 = (emit (Get report_id) w)\<lparr>requests := requests w + 1\<rparr>
      in case server e (requests w) of
           ConnectTimedOut \<Rightarrow> (Raise ConnectTimeout, w1)
         | ReadTimedOut \<Rightarrow> (Raise ReadTimeout, w1)
         | Reply response \<Rightarrow>
             and_then (ReportBase_check_response ReportChecker_expected_2xx_status_codes response, w1)
               (\<lambda>_ w2. (Return response, w2)))"

definition ReportChecker_check_time_elapsed ::
  "env \<Rightarrow> string \<Rightarrow> rat \<Rightarrow> world \<Rightarrow> rat result \<times> world" where
  "ReportChecker_check_time_elapsed e report_id timestamp_created w =
     (let time_elapsed = utcnow e (clock_reads w) - timestamp_created;
          w1 = w\<lparr>clock_reads := clock_reads w + 1\<rparr>
      in if time_elapsed > MAX_TIME_FOR_RETRIEVING_REPORT_IN_SECONDS
         then (Raise (TooMuchTimePassed report_id), w1)
         else (Return (round1 time_elapsed), w1))"

text \<open>
  \<^verbatim>\<open>response.json()['value']\<close>: the body has to decode and to be an object with that key
  (of a key that the body has twice the decoder keeps the last member); subscripting any
  other JSON value with a string is a \<^verbatim>\<open>TypeError\<close>.
\<close>

definition json_value :: "response \<Rightarrow> json result" where
  "json_value response =
     (case json_body response of
        None \<Rightarrow> Raise JSONDecodeError
      | Some (JObject members) \<Rightarrow>
          (case map_of (rev members) ''value'' of
             None \<Rightarrow> Raise (KeyError ''value'')
           | Some v \<Rightarrow> Return v)
      | Some _ \<Rightarrow> Raise TypeError)"

text \<open>How \<^verbatim>\<open>format\<close> renders a field: a string as it is, any other value by \<open>json_str\<close>.\<close>

definition str_of :: "env \<Rightarrow> json \<Rightarrow> string" where
  "str_of e v = (case v of JString s \<Rightarrow> s | _ \<Rightarrow> json_str e v)"

definition ReportChecker_add_new_line_to_csv ::
  "env \<Rightarrow> rat \<Rightarrow> json \<Rightarrow> world \<Rightarrow> unit result \<times> world" where
  "ReportChecker_add_new_line_to_csv e timestamp_created v w =
     and_then
       (format LINE_FOR_CSV
          [(''timestamp'', float_str e timestamp_created), (''value'', str_of e v)], w)
       (\<lambda>line w1. (Return (), emit (Write line) w1))"

definition ReportChecker_report_retrieved ::
  "env \<Rightarrow> string \<Rightarrow> rat \<Rightarrow> response \<Rightarrow> world \<Rightarrow> unit result \<times> world" where
  "ReportChecker_report_retrieved e report_id timestamp_created response w =
     (let w1 = emit (Log INFO (REPORT_SUCCESSFULLY_RETRIEVED_MESSAGE report_id)) w
      in and_then (json_value response, w1)
           (\<lambda>v w2. ReportChecker_add_new_line_to_csv e timestamp_created v w2))"

text \<open>
  The \<^verbatim>\<open>while\<close> loop of \<^verbatim>\<open>ReportChecker._send_request\<close> and the call after it, from the
  test of the loop on; the first argument bounds the number of passes.
\<close>

primrec ReportChecker_while ::
  "nat \<Rightarrow> env \<Rightarrow> string \<Rightarrow> rat \<Rightarrow> nat \<Rightarrow> response \<Rightarrow> world \<Rightarrow> unit result \<times> world" where
  "ReportChecker_while 0 e report_id timestamp_created count response w =
     (if status_code response \<noteq> REPORT_RETRIEVED_STATUS_CODE
      then (Unfinished, w)
      else ReportChecker_report_retrieved e report_id timestamp_created response w)"
| "ReportChecker_while (Suc n) e report_id timestamp_created count response w =
     (if status_code response \<noteq> REPORT_RETRIEVED_STATUS_CODE
      then and_then (ReportChecker_check_time_elapsed e report_id timestamp_created w)
             (\<lambda>time_passed w1.
                let count1 = count + 1;
                    w2 = emit (Log DEBUG (REPORT_STILL_NOT_AVAILABLE_MESSAGE report_id
                                 time_passed count1)) w1;
                    w3 = emit (Sleep TIME_BETWEEN_GET_REQUESTS_IN_SECONDS) w2
                in and_then (ReportChecker_make_request_and_check_response e report_id w3)
                     (\<lambda>response1 w4.
                        ReportChecker_while n e report_id timestamp_created count1 response1 w4))
      else ReportChecker_report_retrieved e report_id timestamp_created response w)"

definition ReportChecker_send_request ::
  "nat \<Rightarrow> env \<Rightarrow> string \<Rightarrow> rat \<Rightarrow> world \<Rightarrow> unit result \<times> world" where
  "ReportChecker_send_request n e report_id timestamp_created w =
     (let count = 0
      in and_then (ReportChecker_make_request_and_check_response e report_id w)
           (\<lambda>response w1. ReportChecker_while n e report_id timestamp_created count response w1))"

text \<open>\<^verbatim>\<open>ReportChecker._run\<close>: \<^verbatim>\<open>super()._run(sleep)\<close> inside its own \<^verbatim>\<open>try\<close>.\<close>

definition ReportChecker_run ::
  "nat \<Rightarrow> env \<Rightarrow> string \<Rightarrow> rat \<Rightarrow> bool \<Rightarrow> world \<Rightarrow> unit result \<times> world" where
  "ReportChecker_run n e report_id timestamp_created sleep w =
     (case ReportBase_run ReportChecker_sleeping_time
             (ReportChecker_send_request n e report_id timestamp_created)
             ReportBase_check_exception sleep w of
        (Raise (TooMuchTimePassed x), w1) \<Rightarrow>
          (Return (), emit (Log ERROR (Exc (TooMuchTimePassed x))) w1)
      | other \<Rightarrow> other)"

definition ReportChecker_connect ::
  "nat \<Rightarrow> env \<Rightarrow> string \<Rightarrow> rat \<Rightarrow> bool \<Rightarrow> world \<Rightarrow> unit result \<times> world" where
  "ReportChecker_connect n e report_id timestamp_created sleep w =
     ReportBase_connect n (ReportChecker_run n e report_id timestamp_created) sleep w"

section \<open>Reading a trace\<close>

definition posts :: "event list \<Rightarrow> string list" where
  "posts evs = concat (map (\<lambda>ev. case ev of Post i \<Rightarrow> [i] | _ \<Rightarrow> []) evs)"

definition gets :: "event list \<Rightarrow> string list" where
  "gets evs = concat (map (\<lambda>ev. case ev of Get i \<Rightarrow> [i] | _ \<Rightarrow> []) evs)"

definition writes :: "event list \<Rightarrow> string list" where
  "writes evs = concat (map (\<lambda>ev. case ev of Write l \<Rightarrow> [l] | _ \<Rightarrow> []) evs)"

definition gathers :: "event list \<Rightarrow> (string \<times> rat \<times> bool) list" where
  "gathers evs = concat (map (\<lambda>ev. case ev of Gather i t s \<Rightarrow> [(i, t, s)] | _ \<Rightarrow> []) evs)"

definition sleeps :: "event list \<Rightarrow> rat list" where
  "sleeps evs = concat (map (\<lambda>ev. case ev of Sleep d \<Rightarrow> [d] | _ \<Rightarrow> []) evs)"

definition world0 :: world where
  "world0 = \<lparr>requests = 0, uuids_drawn = 0, clock_reads = 0, trace = []\<rparr>"

section \<open>Scripts of replies and the worlds they lead to\<close>

text \<open>
  The definitions from here on are not code of the repository. They describe what the
  environment does, name the worlds that the code reaches, and fix the examples on which
  the theorems are instantiated.

  \<open>server_replies e q xs\<close>: the requests number \<open>q\<close>, \<open>q + 1\<close>, ... are answered by \<open>xs\<close>.
  \<open>clock_within e t c k\<close>: the readings number \<open>c\<close>, ..., \<open>c + k - 1\<close> of the clock are at
  most the maximal waiting time after \<open>t\<close>. \<open>pending_among e q k\<close>: how many of the
  requests number \<open>q\<close>, ..., \<open>q + k - 1\<close> are answered by a response with status 202.
  \<open>continues e r\<close>: after the response \<open>r\<close> to its request the creator makes a further
  one (a conflict, or a report created with a date that parses). \<open>date_parses e r\<close>: the
  response has a \<^verbatim>\<open>Date\<close> header in the format of the code. \<open>has_value r\<close>: the body of
  the response decodes to an object with the key \<^verbatim>\<open>value\<close>.
\<close>

primrec server_replies :: "env \<Rightarrow> nat \<Rightarrow> reply list \<Rightarrow> bool" where
  "server_replies e q [] = True"
| "server_replies e q (x # xs) = (server e q = x \<and> server_replies e (Suc q) xs)"

primrec clock_within :: "env \<Rightarrow> rat \<Rightarrow> nat \<Rightarrow> nat \<Rightarrow> bool" where
  "clock_within e t c 0 = True"
| "clock_within e t c (Suc k) =
     (utcnow e c - t \<le> MAX_TIME_FOR_RETRIEVING_REPORT_IN_SECONDS \<and> clock_within e t (Suc c) k)"

definition is_pending :: "reply \<Rightarrow> bool" where
  "is_pending x =
     (case x of Reply r \<Rightarrow> status_code r = REPORT_STILL_NOT_AVAILABLE_STATUS_CODE | _ \<Rightarrow> False)"

definition pending_among :: "env \<Rightarrow> nat \<Rightarrow> nat \<Rightarrow> nat" where
  "pending_among e q k = length (filter is_pending (map (server e) [q..<q + k]))"

definition continues :: "env \<Rightarrow> response \<Rightarrow> bool" where
  "continues e r =
     (status_code r = 409 \<or>
      (status_code r = 201 \<and>
       (case ReportCreator_get_timestamp_from_response e r of Return _ \<Rightarrow> True | _ \<Rightarrow> False)))"



definition logged :: "level \<Rightarrow> event list \<Rightarrow> message list" where
  "logged l evs = concat (map (\<lambda>ev. case ev of Log l1 m \<Rightarrow> (if l1 = l then [m] else []) | _ \<Rightarrow> []) evs)"

text \<open>
  The worlds after a part of the code has run: \<open>slept\<close> after the \<^verbatim>\<open>if sleep\<close> of
  \<^verbatim>\<open>ReportBase._run\<close>; \<open>first_get\<close> after a request of the checker; \<open>after_pass\<close> after one
  pass of the loop of the checker and \<open>after_passes\<close> after several; \<open>posted\<close> after the
  request of the creator, \<open>conflicted\<close> after a conflict was logged, \<open>handed_over\<close> after
  the checker was handed to \<^verbatim>\<open>asyncio.gather\<close>, and \<open>after_cycles\<close> after the creator went
  through a list of responses (with the value of \<^verbatim>\<open>sleep\<close> of its next run). \<open>received x\<close>
  is what the checker makes of the reply \<open>x\<close>, and \<open>csv_line\<close> is the line of a record.
\<close>

definition slept :: "rat \<Rightarrow> bool \<Rightarrow> world \<Rightarrow> world" where
  "slept d sleep w = (if sleep then emit (Sleep d) w else w)"

definition first_get :: "string \<Rightarrow> world \<Rightarrow> world" where
  "first_get i w = (emit (Get i) w)\<lparr>requests := requests w + 1\<rparr>"

definition after_pass :: "env \<Rightarrow> string \<Rightarrow> rat \<Rightarrow> nat \<Rightarrow> world \<Rightarrow> world" where
  "after_pass e report_id t count w =
     w\<lparr>requests := requests w + 1, clock_reads := clock_reads w + 1,
       trace := trace w @
         [Log DEBUG (REPORT_STILL_NOT_AVAILABLE_MESSAGE report_id
            (round1 (utcnow e (clock_reads w) - t)) (count + 1)),
          Sleep TIME_BETWEEN_GET_REQUESTS_IN_SECONDS, Get report_id]\<rparr>"

primrec after_passes :: "env \<Rightarrow> string \<Rightarrow> rat \<Rightarrow> nat \<Rightarrow> nat \<Rightarrow> world \<Rightarrow> world" where
  "after_passes e report_id t count 0 w = w"
| "after_passes e report_id t count (Suc k) w =
     after_passes e report_id t (count + 1) k (after_pass e report_id t count w)"

definition received :: "reply \<Rightarrow> response result" where
  "received x =
     (case x of
        ConnectTimedOut \<Rightarrow> Raise ConnectTimeout
      | ReadTimedOut \<Rightarrow> Raise ReadTimeout
      | Reply r \<Rightarrow>
          (if status_code r = 200 \<or> status_code r = 202 then Return r
           else if 200 \<le> status_code r \<and> status_code r \<le> 299
           then Raise (UnexpectedAPIStatusCode r)
           else Raise (HTTPStatusError r)))"

definition csv_line :: "env \<Rightarrow> rat \<Rightarrow> json \<Rightarrow> string" where
  "csv_line e t v = float_str e t @ '';'' @ str_of e v @ [CHR 0x5C, CHR ''n'', CHR 0x0A]"

definition posted :: "env \<Rightarrow> world \<Rightarrow> world" where
  "posted e w =
     (emit (Post (uuid4 e (uuids_drawn w))) w)
       \<lparr>uuids_drawn := uuids_drawn w + 1, requests := requests w + 1\<rparr>"

definition handed_over :: "env \<Rightarrow> rat \<Rightarrow> world \<Rightarrow> world" where
  "handed_over e datetime_created w =
     emit (Gather (uuid4 e (uuids_drawn w)) datetime_created True)
       (emit (Log INFO (POST_REQUEST_WAS_SENT_SUCCESSFULLY_MESSAGE (uuid4 e (uuids_drawn w))
                MIN_TIME_FOR_RETRIEVING_REPORT_IN_SECONDS))
          (posted e w))"

definition conflicted :: "env \<Rightarrow> response \<Rightarrow> world \<Rightarrow> world" where
  "conflicted e r w =
     emit (Log WARNING (Text (rstrip (response_text r) @ TRYING_AGAIN_MESSAGE)))
       (emit (Log ERROR (Exc (HTTPStatusError r))) (posted e w))"

primrec after_cycles :: "env \<Rightarrow> response list \<Rightarrow> bool \<Rightarrow> world \<Rightarrow> bool \<times> world" where
  "after_cycles e [] sleep w = (sleep, w)"
| "after_cycles e (r # rs) sleep w =
     (if status_code r = 409
      then after_cycles e rs False
             (conflicted e r (slept TIME_BETWEEN_REQUESTS_FOR_CREATING_REPORTS_IN_SECONDS sleep w))
      else (case ReportCreator_get_timestamp_from_response e r of
              Return datetime_created \<Rightarrow>
                after_cycles e rs True
                  (handed_over e datetime_created
                     (slept TIME_BETWEEN_REQUESTS_FOR_CREATING_REPORTS_IN_SECONDS sleep w))
            | _ \<Rightarrow> (sleep, w)))"

text \<open>
  The examples: a response with a given status code, the date of the docstring of
  \<^verbatim>\<open>__get_timestamp_from_response\<close> and the body \<^verbatim>\<open>{"value": "x"}\<close>; an environment that
  answers by a script (and by a read timeout after it), draws the identifiers \<open>u\<close>, \<open>uu\<close>,
  ..., and knows the timestamp 1679230894 of that date; a response without a date and
  without a body that decodes; a response 200 whose value is \<open>a\<close>, a line feed and \<open>b\<close>;
  a clock that is 31 seconds after that timestamp and moves
  by a second at each reading, one that always is 301 seconds after it, and one that is
  299 seconds after it and moves by ten seconds at each reading.
\<close>

definition example_response :: "int \<Rightarrow> response" where
  "example_response code =
     \<lparr>status_code = code, response_text = ''Report already exists '' @ [CHR 0x0A],
      date_header = Some ''Sun, 19 Mar 2023 13:01:34 GMT'',
      json_body = Some (JObject [(''value'', JString ''x'')])\<rparr>"

definition example_env :: "reply list \<Rightarrow> (nat \<Rightarrow> rat) \<Rightarrow> env" where
  "example_env script clock =
     \<lparr>server = (\<lambda>k. if k < length script then script ! k else ReadTimedOut),
      uuid4 = (\<lambda>k. replicate (Suc k) CHR ''u''),
      utcnow = clock,
      strptime = (\<lambda>s. if s = ''Sun, 19 Mar 2023 13:01:34 GMT'' then Some 1679230894 else None),
      float_str = (\<lambda>t. ''1679230894.0''),
      json_str = (\<lambda>v. ''None'')\<rparr>"

definition example_clock :: "nat \<Rightarrow> rat" where
  "example_clock k = 1679230894 + 31 + of_nat k"

definition example_malformed :: "int \<Rightarrow> response" where
  "example_malformed code =
     \<lparr>status_code = code, response_text = ''oops'', date_header = None, json_body = None\<rparr>"

definition example_late_clock :: "nat \<Rightarrow> rat" where
  "example_late_clock k = 1679230894 + 301"

definition example_slow_clock :: "nat \<Rightarrow> rat" where
  "example_slow_clock k = 1679230894 + 299 + 10 * of_nat k"

definition example_two_lines :: response where
  "example_two_lines =
     \<lparr>status_code = 200, response_text = '''',
      date_header = Some ''Sun, 19 Mar 2023 13:01:34 GMT'',
      json_body = Some (JObject [(''value'', JString (''a'' @ [CHR 0x0A] @ ''b''))])\<rparr>"

section \<open>Lemmas on the trace and on the loop of the checker\<close>

lemma emit_simps [simp]:
  "trace (emit ev w) = trace w @ [ev]"
  "requests (emit ev w) = requests w"
  "uuids_drawn (emit ev w) = uuids_drawn w"
  "clock_reads (emit ev w) = clock_reads w"
  by (simp_all add: emit_def)

lemma gets_simps [simp]:
  "gets [] = []"
  "gets (xs @ ys) = gets xs @ gets ys"
  "gets (Get i # xs) = i # gets xs"
  "gets (Sleep d # xs) = gets xs"
  "gets (Post i # xs) = gets xs"
  "gets (Log l m # xs) = gets xs"
  "gets (Write s # xs) = gets xs"
  "gets (Gather i t b # xs) = gets xs"
  by (simp_all add: gets_def)

lemma writes_simps [simp]:
  "writes [] = []"
  "writes (xs @ ys) = writes xs @ writes ys"
  "writes (Write s # xs) = s # writes xs"
  "writes (Get i # xs) = writes xs"
  "writes (Sleep d # xs) = writes xs"
  "writes (Post i # xs) = writes xs"
  "writes (Log l m # xs) = writes xs"
  "writes (Gather i t b # xs) = writes xs"
  by (simp_all add: writes_def)

lemma posts_simps [simp]:
  "posts [] = []"
  "posts (xs @ ys) = posts xs @ posts ys"
  "posts (Post i # xs) = i # posts xs"
  "posts (Get i # xs) = posts xs"
  "posts (Sleep d # xs) = posts xs"
  "posts (Write s # xs) = posts xs"
  "posts (Log l m # xs) = posts xs"
  "posts (Gather i t b # xs) = posts xs"
  by (simp_all add: posts_def)

lemma sleeps_simps [simp]:
  "sleeps [] = []"
  "sleeps (xs @ ys) = sleeps xs @ sleeps ys"
  "sleeps (Sleep d # xs) = d # sleeps xs"
  "sleeps (Get i # xs) = sleeps xs"
  "sleeps (Post i # xs) = sleeps xs"
  "sleeps (Write s # xs) = sleeps xs"
  "sleeps (Log l m # xs) = sleeps xs"
  "sleeps (Gather i t b # xs) = sleeps xs"
  by (simp_all add: sleeps_def)

lemma gathers_simps [simp]:
  "gathers [] = []"
  "gathers (xs @ ys) = gathers xs @ gathers ys"
  "gathers (Gather i t b # xs) = (i, t, b) # gathers xs"
  "gathers (Get i # xs) = gathers xs"
  "gathers (Post i # xs) = gathers xs"
  "gathers (Write s # xs) = gathers xs"
  "gathers (Log l m # xs) = gathers xs"
  "gathers (Sleep d # xs) = gathers xs"
  by (simp_all add: gathers_def)

lemma checker_check_response:
  "ReportBase_check_response ReportChecker_expected_2xx_status_codes r =
     (if status_code r = 200 \<or> status_code r = 202 then Return ()
      else if 200 \<le> status_code r \<and> status_code r \<le> 299 then Raise (UnexpectedAPIStatusCode r)
      else Raise (HTTPStatusError r))"
  by (simp add: ReportBase_check_response_def ReportChecker_expected_2xx_status_codes_def
      raise_for_status_def is_success_def REPORT_RETRIEVED_STATUS_CODE_def
      REPORT_STILL_NOT_AVAILABLE_STATUS_CODE_def)

lemma creator_check_response:
  "ReportBase_check_response ReportCreator_expected_2xx_status_codes r =
     (if status_code r = 201 then Return ()
      else if 200 \<le> status_code r \<and> status_code r \<le> 299 then Raise (UnexpectedAPIStatusCode r)
      else Raise (HTTPStatusError r))"
  by (simp add: ReportBase_check_response_def ReportCreator_expected_2xx_status_codes_def
      raise_for_status_def is_success_def
      REQUESTS_FOR_CREATING_REPORT_SUCCESSFULLY_SENT_STATUS_CODE_def)

lemma make_request_received:
  "ReportChecker_make_request_and_check_response e i w =
     (received (server e (requests w)), first_get i w)"
  by (simp add: ReportChecker_make_request_and_check_response_def checker_check_response
      received_def first_get_def split: reply.splits)

lemma received_pending:
  "status_code r = 200 \<or> status_code r = 202 \<Longrightarrow> received (Reply r) = Return r"
  by (simp add: received_def)

lemma while_pass:
  assumes "status_code r = 202"
      and "utcnow e (clock_reads w) - t \<le> MAX_TIME_FOR_RETRIEVING_REPORT_IN_SECONDS"
  shows "ReportChecker_while (Suc n) e i t count r w =
           and_then (received (server e (requests w)), after_pass e i t count w)
             (\<lambda>r1 w4. ReportChecker_while n e i t (count + 1) r1 w4)"
proof -
  let ?w1 = "w\<lparr>clock_reads := clock_reads w + 1\<rparr>"
  let ?w3 = "emit (Sleep TIME_BETWEEN_GET_REQUESTS_IN_SECONDS)
               (emit (Log DEBUG (REPORT_STILL_NOT_AVAILABLE_MESSAGE i
                  (round1 (utcnow e (clock_reads w) - t)) (count + 1))) ?w1)"
  have time: "ReportChecker_check_time_elapsed e i t w =
                (Return (round1 (utcnow e (clock_reads w) - t)), ?w1)"
    using assms(2) by (simp add: ReportChecker_check_time_elapsed_def Let_def)
  have same: "first_get i ?w3 = after_pass e i t count w"
    by (simp add: after_pass_def emit_def first_get_def)
  show ?thesis
    using assms(1) time same
    by (simp add: REPORT_RETRIEVED_STATUS_CODE_def Let_def make_request_received)
qed

lemma while_passes:
  assumes "server_replies e (requests w) (map Reply rs @ [x])"
      and "clock_within e t (clock_reads w) (Suc (length rs))"
      and "status_code r = 202"
      and "\<forall>y\<in>set rs. status_code y = 202"
  shows "ReportChecker_while (Suc (length rs) + n) e i t count r w =
           and_then (received x, after_passes e i t count (Suc (length rs)) w)
             (\<lambda>r1 w4. ReportChecker_while n e i t (count + Suc (length rs)) r1 w4)"
  using assms
proof (induction rs arbitrary: r w count)
  case Nil
  have "ReportChecker_while (Suc n) e i t count r w =
          and_then (received (server e (requests w)), after_pass e i t count w)
            (\<lambda>r1 w4. ReportChecker_while n e i t (count + 1) r1 w4)"
    using Nil.prems by (intro while_pass) simp_all
  with Nil.prems show ?case by (simp del: ReportChecker_while.simps)
next
  case (Cons r1 rs)
  let ?w = "after_pass e i t count w"
  have "ReportChecker_while (Suc (Suc (length rs) + n)) e i t count r w =
          and_then (received (server e (requests w)), ?w)
            (\<lambda>r1 w4. ReportChecker_while (Suc (length rs) + n) e i t (count + 1) r1 w4)"
    using Cons.prems by (intro while_pass) simp_all
  moreover have "received (server e (requests w)) = Return r1"
    using Cons.prems by (simp add: received_pending)
  moreover have "ReportChecker_while (Suc (length rs) + n) e i t (count + 1) r1 ?w =
      and_then (received x, after_passes e i t (count + 1) (Suc (length rs)) ?w)
        (\<lambda>r1 w4. ReportChecker_while n e i t (count + 1 + Suc (length rs)) r1 w4)"
    using Cons.prems by (intro Cons.IH) (simp_all add: after_pass_def)
  ultimately show ?case by simp
qed

lemma after_passes_fields:
  "requests (after_passes e i t count k w) = requests w + k"
  "clock_reads (after_passes e i t count k w) = clock_reads w + k"
  "uuids_drawn (after_passes e i t count k w) = uuids_drawn w"
  "gets (trace (after_passes e i t count k w)) = gets (trace w) @ replicate k i"
  "writes (trace (after_passes e i t count k w)) = writes (trace w)"
  "posts (trace (after_passes e i t count k w)) = posts (trace w)"
  "sleeps (trace (after_passes e i t count k w)) =
     sleeps (trace w) @ replicate k TIME_BETWEEN_GET_REQUESTS_IN_SECONDS"
  by (induction k arbitrary: w count; simp add: after_pass_def replicate_append_same)+

lemma send_request_passes:
  assumes "server_replies e (requests w) (map Reply rs @ [x])"
      and "clock_within e t (clock_reads w) (length rs)"
      and "\<forall>y\<in>set rs. status_code y = 202"
  shows "ReportChecker_send_request (length rs + n) e i t w =
           and_then (received x, after_passes e i t 0 (length rs) (first_get i w))
             (\<lambda>r1 w4. ReportChecker_while n e i t (length rs) r1 w4)"
proof (cases rs)
  case Nil
  with assms show ?thesis
    by (simp add: ReportChecker_send_request_def make_request_received)
next
  case (Cons r1 rs1)
  have first: "received (server e (requests w)) = Return r1"
    using assms(1,3) Cons by (simp add: received_pending)
  have "ReportChecker_while (Suc (length rs1) + n) e i t 0 r1 (first_get i w) =
          and_then (received x, after_passes e i t 0 (Suc (length rs1)) (first_get i w))
            (\<lambda>r1 w4. ReportChecker_while n e i t (0 + Suc (length rs1)) r1 w4)"
    using assms Cons by (intro while_passes) (simp_all add: first_get_def)
  with first Cons show ?thesis
    by (simp add: ReportChecker_send_request_def make_request_received)
qed

lemma while_expired:
  assumes "status_code r = 202"
      and "MAX_TIME_FOR_RETRIEVING_REPORT_IN_SECONDS < utcnow e (clock_reads w) - t"
  shows "ReportChecker_while (Suc n) e i t count r w =
           (Raise (TooMuchTimePassed i), w\<lparr>clock_reads := clock_reads w + 1\<rparr>)"
  using assms
  by (simp add: ReportChecker_check_time_elapsed_def REPORT_RETRIEVED_STATUS_CODE_def Let_def)

lemma while_ready:
  assumes "status_code r = 200"
  shows "ReportChecker_while n e i t count r w = ReportChecker_report_retrieved e i t r w"
  using assms by (cases n) (simp_all add: REPORT_RETRIEVED_STATUS_CODE_def)

lemma format_LINE_FOR_CSV:
  "format LINE_FOR_CSV [(''timestamp'', ts), (''value'', v)] =
     Return (ts @ '';'' @ v @ [CHR 0x5C, CHR ''n'', CHR 0x0A])"
  by (simp add: format_def LINE_FOR_CSV_def)

lemma add_new_line:
  "ReportChecker_add_new_line_to_csv e t v w =
     (Return (), emit (Write (float_str e t @ '';'' @ str_of e v @ [CHR 0x5C, CHR ''n'', CHR 0x0A])) w)"
  by (simp add: ReportChecker_add_new_line_to_csv_def format_LINE_FOR_CSV)

lemma run_base_result:
  "ReportBase_run st send ce sleep w =
     (case send (if sleep then emit (Sleep st) w else w) of
        (Raise (HTTPStatusError r), w2) \<Rightarrow>
          ce r (emit (Log ERROR (Exc (HTTPStatusError r))) w2)
      | (Raise (UnexpectedAPIStatusCode r), w2) \<Rightarrow>
          (Raise (SystemExit None), emit (Log ERROR (Exc (UnexpectedAPIStatusCode r))) w2)
      | other \<Rightarrow> other)"
  by (simp add: ReportBase_run_def Let_def)

lemma connect_passes:
  assumes "fst (run sleep w) \<noteq> Raise ConnectTimeout"
  shows "ReportBase_connect (Suc n) run sleep w = run sleep w"
  using assms by (auto split: prod.splits result.splits exn.splits)

lemma checker_run_result:
  "ReportChecker_run n e i t sleep w =
     (case ReportChecker_send_request n e i t
             (if sleep then emit (Sleep MIN_TIME_FOR_RETRIEVING_REPORT_IN_SECONDS) w else w) of
        (Raise (HTTPStatusError r), w2) \<Rightarrow>
          (Return (), emit (Log ERROR (Exc (HTTPStatusError r))) w2)
      | (Raise (UnexpectedAPIStatusCode r), w2) \<Rightarrow>
          (Raise (SystemExit None), emit (Log ERROR (Exc (UnexpectedAPIStatusCode r))) w2)
      | (Raise (TooMuchTimePassed x), w2) \<Rightarrow>
          (Return (), emit (Log ERROR (Exc (TooMuchTimePassed x))) w2)
      | other \<Rightarrow> other)"
  by (simp add: ReportChecker_run_def run_base_result ReportBase_check_exception_def
      ReportChecker_sleeping_time_def split: prod.splits result.splits exn.splits)

lemma checker_connect_result:
  assumes "ReportChecker_run (Suc n) e i t sleep w = (res, w1)" "res \<noteq> Raise ConnectTimeout"
  shows "ReportChecker_connect (Suc n) e i t sleep w = (res, w1)"
  unfolding ReportChecker_connect_def using assms connect_passes [of "ReportChecker_run (Suc n) e i t" sleep w n]
  by simp

lemma slept_fields [simp]:
  "requests (slept d sleep w) = requests w"
  "clock_reads (slept d sleep w) = clock_reads w"
  "uuids_drawn (slept d sleep w) = uuids_drawn w"
  "trace (slept d sleep w) = trace w @ (if sleep then [Sleep d] else [])"
  by (simp_all add: slept_def)

lemma first_get_fields [simp]:
  "requests (first_get i w) = requests w + 1"
  "clock_reads (first_get i w) = clock_reads w"
  "uuids_drawn (first_get i w) = uuids_drawn w"
  "trace (first_get i w) = trace w @ [Get i]"
  by (simp_all add: first_get_def)


lemma report_retrieved_result:
  "ReportChecker_report_retrieved e i t r w =
     (case json_value r of
        Return v \<Rightarrow>
          (Return (), emit (Write (csv_line e t v))
             (emit (Log INFO (REPORT_SUCCESSFULLY_RETRIEVED_MESSAGE i)) w))
      | Raise ex \<Rightarrow> (Raise ex, emit (Log INFO (REPORT_SUCCESSFULLY_RETRIEVED_MESSAGE i)) w)
      | Unfinished \<Rightarrow> (Unfinished, emit (Log INFO (REPORT_SUCCESSFULLY_RETRIEVED_MESSAGE i)) w))"
  by (simp add: ReportChecker_report_retrieved_def add_new_line csv_line_def Let_def
      split: result.splits)

lemma json_value_raises:
  assumes "json_value r = Raise ex"
  shows "ex = JSONDecodeError \<or> ex = KeyError ''value'' \<or> ex = TypeError"
  using assms by (auto simp add: json_value_def split: option.splits json.splits)

lemma pending_among_0 [simp]: "pending_among e q 0 = 0"
  by (simp add: pending_among_def)

lemma pending_among_Suc:
  "pending_among e q (Suc k) = (if is_pending (server e q) then 1 else 0) + pending_among e (Suc q) k"
  by (simp add: pending_among_def upt_conv_Cons del: upt_Suc)

lemma received_Return:
  assumes "received x = Return r"
  shows "x = Reply r \<and> (status_code r = 200 \<or> status_code r = 202)"
  using assms by (auto simp add: received_def split: reply.splits if_splits)

lemma received_not_expired [simp]: "received x \<noteq> Raise (TooMuchTimePassed j)"
  by (auto simp add: received_def split: reply.splits)

lemma received_not_Unfinished [simp]: "received x \<noteq> Unfinished"
  by (auto simp add: received_def split: reply.splits)

lemma report_retrieved_fields:
  "requests (snd (ReportChecker_report_retrieved e i t r w)) = requests w"
  "clock_reads (snd (ReportChecker_report_retrieved e i t r w)) = clock_reads w"
  "fst (ReportChecker_report_retrieved e i t r w) \<noteq> Raise (TooMuchTimePassed j)"
  "\<exists>evs. trace (snd (ReportChecker_report_retrieved e i t r w)) = trace w @ evs"
  using json_value_raises [of r]
  by (auto simp add: report_retrieved_result split: result.splits)

lemma after_pass_fields [simp]:
  "requests (after_pass e i t c w) = requests w + 1"
  "clock_reads (after_pass e i t c w) = clock_reads w + 1"
  "uuids_drawn (after_pass e i t c w) = uuids_drawn w"
  by (simp_all add: after_pass_def)

lemma while_step:
  "ReportChecker_while (Suc n) e i t c r w =
     (if status_code r = 200 then ReportChecker_report_retrieved e i t r w
      else if MAX_TIME_FOR_RETRIEVING_REPORT_IN_SECONDS < utcnow e (clock_reads w) - t
      then (Raise (TooMuchTimePassed i), w\<lparr>clock_reads := clock_reads w + 1\<rparr>)
      else and_then (received (server e (requests w)), after_pass e i t c w)
             (\<lambda>r1 w4. ReportChecker_while n e i t (c + 1) r1 w4))"
proof -
  let ?w1 = "w\<lparr>clock_reads := clock_reads w + 1\<rparr>"
  let ?w3 = "emit (Sleep TIME_BETWEEN_GET_REQUESTS_IN_SECONDS)
               (emit (Log DEBUG (REPORT_STILL_NOT_AVAILABLE_MESSAGE i
                  (round1 (utcnow e (clock_reads w) - t)) (c + 1))) ?w1)"
  have same: "first_get i ?w3 = after_pass e i t c w"
    by (simp add: after_pass_def emit_def first_get_def)
  show ?thesis
    using same
    by (simp add: REPORT_RETRIEVED_STATUS_CODE_def Let_def make_request_received
        ReportChecker_check_time_elapsed_def)
qed

lemma while_0:
  "ReportChecker_while 0 e i t c r w =
     (if status_code r = 200 then ReportChecker_report_retrieved e i t r w else (Unfinished, w))"
  by (simp add: REPORT_RETRIEVED_STATUS_CODE_def)

lemma while_invariant:
  assumes "status_code r = 200 \<or> status_code r = 202"
  shows "requests w \<le> requests (snd (ReportChecker_while n e i t c r w))
       \<and> clock_reads w \<le> clock_reads (snd (ReportChecker_while n e i t c r w))
       \<and> clock_reads (snd (ReportChecker_while n e i t c r w)) - clock_reads w
           \<le> (if status_code r = 202 then 1 else 0)
             + pending_among e (requests w) (requests (snd (ReportChecker_while n e i t c r w)) - requests w)
       \<and> (\<forall>j. fst (ReportChecker_while n e i t c r w) = Raise (TooMuchTimePassed j) \<longrightarrow>
            clock_reads w < clock_reads (snd (ReportChecker_while n e i t c r w))
            \<and> (if requests (snd (ReportChecker_while n e i t c r w)) = requests w
                then status_code r = 202
                else is_pending (server e (requests (snd (ReportChecker_while n e i t c r w)) - 1))))"
  using assms
proof (induction n arbitrary: c r w)
  case 0
  then show ?case
    by (auto simp add: while_0 report_retrieved_fields simp del: ReportChecker_while.simps)
next
  case (Suc n)
  show ?case
  proof (cases "status_code r = 200")
    case True
    then show ?thesis
      by (auto simp add: while_step report_retrieved_fields simp del: ReportChecker_while.simps)
  next
    case False
    with Suc.prems have r: "status_code r = 202" by simp
    show ?thesis
    proof (cases "MAX_TIME_FOR_RETRIEVING_REPORT_IN_SECONDS < utcnow e (clock_reads w) - t")
      case True
      with r show ?thesis
        by (simp add: while_step del: ReportChecker_while.simps)
    next
      case late: False
      let ?x = "server e (requests w)"
      let ?w = "after_pass e i t c w"
      show ?thesis
      proof (cases "received ?x")
        case (Return r1)
        then have x: "?x = Reply r1" and r1: "status_code r1 = 200 \<or> status_code r1 = 202"
          using received_Return by blast+
        let ?res = "ReportChecker_while n e i t (c + 1) r1 ?w"
        have eq: "ReportChecker_while (Suc n) e i t c r w = ?res"
          using r late Return by (simp add: while_step del: ReportChecker_while.simps)
        note ih = Suc.IH [OF r1, of ?w "c + 1"]
        have le: "requests w + 1 \<le> requests (snd ?res)"
          using ih by simp
        then obtain k where k: "requests (snd ?res) - requests w = Suc k"
          and k': "requests (snd ?res) - requests ?w = k"
          by (cases "requests (snd ?res) - requests w") auto
        have pend: "pending_among e (requests w) (Suc k) =
            (if status_code r1 = 202 then 1 else 0) + pending_among e (Suc (requests w)) k"
          using x by (simp add: pending_among_Suc is_pending_def
              REPORT_STILL_NOT_AVAILABLE_STATUS_CODE_def)
        have last: "is_pending (server e (requests w)) = (status_code r1 = 202)"
          using x by (simp add: is_pending_def REPORT_STILL_NOT_AVAILABLE_STATUS_CODE_def)
        show ?thesis
          unfolding eq using ih le k k' pend last r
          by (auto simp del: ReportChecker_while.simps split: if_splits)
      next
        case (Raise ex)
        then show ?thesis
          using r late
          by (auto simp add: while_step pending_among_Suc simp del: ReportChecker_while.simps)
      next
        case Unfinished
        then show ?thesis by simp
      qed
    qed
  qed
qed

lemma while_trace_extends:
  "\<exists>evs. trace (snd (ReportChecker_while n e i t c r w)) = trace w @ evs"
proof (induction n arbitrary: c r w)
  case 0
  then show ?case
    using report_retrieved_fields(4) [of e i t r w]
    by (auto simp add: while_0 simp del: ReportChecker_while.simps)
next
  case (Suc n)
  show ?case
  proof (cases "received (server e (requests w))")
    case (Return r1)
    obtain evs where "trace (snd (ReportChecker_while n e i t (c + 1) r1 (after_pass e i t c w))) =
        trace (after_pass e i t c w) @ evs"
      using Suc.IH by blast
    then show ?thesis
      using Return report_retrieved_fields(4) [of e i t r w]
      by (auto simp add: while_step after_pass_def simp del: ReportChecker_while.simps)
  next
    case (Raise ex)
    then show ?thesis
      using report_retrieved_fields(4) [of e i t r w]
      by (auto simp add: while_step after_pass_def simp del: ReportChecker_while.simps)
  next
    case Unfinished
    then show ?thesis by simp
  qed
qed

lemma send_request_result:
  "ReportChecker_send_request n e i t w =
     and_then (received (server e (requests w)), first_get i w)
       (\<lambda>r1 w1. ReportChecker_while n e i t 0 r1 w1)"
  by (simp add: ReportChecker_send_request_def make_request_received)

lemma send_request_invariant:
  "requests w < requests (snd (ReportChecker_send_request n e i t w))
   \<and> (\<exists>evs. trace (snd (ReportChecker_send_request n e i t w)) = trace w @ Get i # evs)
   \<and> clock_reads (snd (ReportChecker_send_request n e i t w)) - clock_reads w
       \<le> pending_among e (requests w)
            (requests (snd (ReportChecker_send_request n e i t w)) - requests w)
   \<and> (\<forall>j. fst (ReportChecker_send_request n e i t w) = Raise (TooMuchTimePassed j) \<longrightarrow>
         clock_reads w < clock_reads (snd (ReportChecker_send_request n e i t w))
         \<and> is_pending (server e (requests (snd (ReportChecker_send_request n e i t w)) - 1)))"
proof (cases "received (server e (requests w))")
  case (Return r1)
  then have x: "server e (requests w) = Reply r1"
    and r1: "status_code r1 = 200 \<or> status_code r1 = 202"
    using received_Return by blast+
  let ?w = "first_get i w"
  let ?res = "ReportChecker_while n e i t 0 r1 ?w"
  have eq: "ReportChecker_send_request n e i t w = ?res"
    using Return by (simp add: send_request_result)
  note inv = while_invariant [OF r1, of ?w n e i t 0]
  obtain evs where evs: "trace (snd ?res) = trace ?w @ evs"
    using while_trace_extends by blast
  have le: "requests w + 1 \<le> requests (snd ?res)"
    using inv by simp
  then obtain k where k: "requests (snd ?res) - requests w = Suc k"
    and k': "requests (snd ?res) - requests ?w = k"
    by (cases "requests (snd ?res) - requests w") auto
  have pend: "pending_among e (requests w) (Suc k) =
      (if status_code r1 = 202 then 1 else 0) + pending_among e (Suc (requests w)) k"
    using x by (simp add: pending_among_Suc is_pending_def
        REPORT_STILL_NOT_AVAILABLE_STATUS_CODE_def)
  have last: "is_pending (server e (requests w)) = (status_code r1 = 202)"
    using x by (simp add: is_pending_def REPORT_STILL_NOT_AVAILABLE_STATUS_CODE_def)
  show ?thesis
    unfolding eq using inv le k k' pend last evs
    by (auto split: if_splits)
next
  case (Raise ex)
  then have "\<forall>j. ex \<noteq> TooMuchTimePassed j"
    using received_not_expired [of "server e (requests w)"] by auto
  with Raise show ?thesis
    by (simp add: send_request_result)
next
  case Unfinished
  then show ?thesis by simp
qed

section \<open>Lemmas on the runs of the creator\<close>

lemma get_timestamp_raises:
  assumes "ReportCreator_get_timestamp_from_response e r = Raise ex"
  shows "ex = KeyError ''date'' \<or> ex = ValueError"
  using assms
  by (auto simp add: ReportCreator_get_timestamp_from_response_def split: option.splits)

lemma get_timestamp_not_Unfinished [simp]:
  "ReportCreator_get_timestamp_from_response e r \<noteq> Unfinished"
  by (auto simp add: ReportCreator_get_timestamp_from_response_def split: option.splits)

lemma creator_send_request_result:
  "ReportCreator_send_request e self_run w =
     (case server e (requests w) of
        ConnectTimedOut \<Rightarrow> (Raise ConnectTimeout, posted e w)
      | ReadTimedOut \<Rightarrow> (Raise ReadTimeout, posted e w)
      | Reply r \<Rightarrow>
          (if status_code r = 201 then
             (case ReportCreator_get_timestamp_from_response e r of
                Return datetime_created \<Rightarrow> self_run True (handed_over e datetime_created w)
              | Raise ex \<Rightarrow> (Raise ex, posted e w)
              | Unfinished \<Rightarrow> (Unfinished, posted e w))
           else if is_success r then (Raise (UnexpectedAPIStatusCode r), posted e w)
           else (Raise (HTTPStatusError r), posted e w)))"
  by (simp add: ReportCreator_send_request_def creator_check_response posted_def handed_over_def
      emit_def is_success_def Let_def split: reply.splits result.splits)

lemma run_base_passes:
  assumes "\<forall>r. fst (send (if sleep then emit (Sleep st) w else w)) \<noteq> Raise (HTTPStatusError r)"
      and "\<forall>r. fst (send (if sleep then emit (Sleep st) w else w)) \<noteq> Raise (UnexpectedAPIStatusCode r)"
  shows "ReportBase_run st send ce sleep w = send (if sleep then emit (Sleep st) w else w)"
  using assms unfolding run_base_result
  by (cases "send (if sleep then emit (Sleep st) w else w)")
     (auto split: result.splits exn.splits)

lemma creator_run_never_raises_status:
  "fst (ReportCreator_run n e sleep w) \<noteq> Raise (HTTPStatusError r)
   \<and> fst (ReportCreator_run n e sleep w) \<noteq> Raise (UnexpectedAPIStatusCode r)"
proof (induction n arbitrary: sleep w r)
  case 0
  then show ?case by simp
next
  case (Suc n)
  let ?w = "if sleep then emit (Sleep ReportCreator_sleeping_time) w else w"
  show ?case
  proof (cases "server e (requests ?w)")
    case (Reply x)
    show ?thesis
    proof (cases "status_code x = 201")
      case True
      show ?thesis
      proof (cases "ReportCreator_get_timestamp_from_response e x")
        case (Return ts)
        have send: "ReportCreator_send_request e (ReportCreator_run n e) ?w =
                ReportCreator_run n e True (handed_over e ts ?w)"
          using Reply True Return by (simp add: creator_send_request_result)
        have "ReportCreator_run (Suc n) e sleep w =
                ReportCreator_send_request e (ReportCreator_run n e) ?w"
          unfolding ReportCreator_run.simps
          by (rule run_base_passes) (simp_all add: send Suc.IH)
        then show ?thesis
          using send Suc.IH by simp
      next
        case (Raise ex)
        then show ?thesis
          using Reply True get_timestamp_raises [OF Raise]
          by (auto simp add: run_base_result creator_send_request_result)
      next
        case Unfinished
        then show ?thesis by simp
      qed
    next
      case False
      then show ?thesis
        using Reply
        by (auto simp add: run_base_result creator_send_request_result
            ReportCreator_check_exception_def Let_def Suc.IH)
    qed
  qed (auto simp add: run_base_result creator_send_request_result)
qed

lemma creator_step:
  "ReportCreator_run (Suc n) e sleep w =
     (let w1 = slept TIME_BETWEEN_REQUESTS_FOR_CREATING_REPORTS_IN_SECONDS sleep w in
      case server e (requests w) of
        ConnectTimedOut \<Rightarrow> (Raise ConnectTimeout, posted e w1)
      | ReadTimedOut \<Rightarrow> (Raise ReadTimeout, posted e w1)
      | Reply r \<Rightarrow>
          (if status_code r = 201 then
             (case ReportCreator_get_timestamp_from_response e r of
                Return datetime_created \<Rightarrow>
                  ReportCreator_run n e True (handed_over e datetime_created w1)
              | Raise ex \<Rightarrow> (Raise ex, posted e w1)
              | Unfinished \<Rightarrow> (Unfinished, posted e w1))
           else if is_success r then
             (Raise (SystemExit None),
              emit (Log ERROR (Exc (UnexpectedAPIStatusCode r))) (posted e w1))
           else if status_code r = 409 then
             ReportCreator_run n e False (conflicted e r w1)
           else
             (Raise (SystemExit (Some 0)),
              emit (Log WARNING (Text (rstrip (response_text r))))
                (emit (Log ERROR (Exc (HTTPStatusError r))) (posted e w1)))))"
proof -
  let ?w = "if sleep then emit (Sleep ReportCreator_sleeping_time) w else w"
  have w: "?w = slept TIME_BETWEEN_REQUESTS_FOR_CREATING_REPORTS_IN_SECONDS sleep w"
    by (simp add: slept_def ReportCreator_sleeping_time_def)
  show ?thesis
  proof (cases "server e (requests w)")
    case (Reply x)
    have req: "server e (requests ?w) = Reply x"
      using Reply by simp
    show ?thesis
    proof (cases "status_code x = 201")
      case True
      show ?thesis
      proof (cases "ReportCreator_get_timestamp_from_response e x")
        case (Return ts)
        have send: "ReportCreator_send_request e (ReportCreator_run n e) ?w =
                ReportCreator_run n e True (handed_over e ts ?w)"
          using req True Return by (simp add: creator_send_request_result)
        have "ReportCreator_run (Suc n) e sleep w =
                ReportCreator_send_request e (ReportCreator_run n e) ?w"
          unfolding ReportCreator_run.simps
          by (rule run_base_passes) (simp_all add: send creator_run_never_raises_status)
        then show ?thesis
          using send Reply True Return w by simp
      next
        case (Raise ex)
        then show ?thesis
          using req Reply True get_timestamp_raises [OF Raise] w
          by (auto simp add: run_base_result creator_send_request_result)
      next
        case Unfinished
        then show ?thesis by simp
      qed
    next
      case False
      then show ?thesis
        using req Reply w
        by (auto simp add: run_base_result creator_send_request_result
            ReportCreator_check_exception_def Let_def conflicted_def
            REPORT_ALREADY_EXISTS_STATUS_CODE_def is_success_def)
    qed
  next
    case ConnectTimedOut
    then show ?thesis
      using w by (simp add: run_base_result creator_send_request_result)
  next
    case ReadTimedOut
    then show ?thesis
      using w by (simp add: run_base_result creator_send_request_result)
  qed
qed

lemma logged_simps [simp]:
  "logged l [] = []"
  "logged l (xs @ ys) = logged l xs @ logged l ys"
  "logged l (Log l1 m # xs) = (if l1 = l then [m] else []) @ logged l xs"
  "logged l (Get i # xs) = logged l xs"
  "logged l (Post i # xs) = logged l xs"
  "logged l (Write s # xs) = logged l xs"
  "logged l (Sleep d # xs) = logged l xs"
  "logged l (Gather i t b # xs) = logged l xs"
  by (simp_all add: logged_def)

lemma posted_fields [simp]:
  "requests (posted e w) = requests w + 1"
  "uuids_drawn (posted e w) = uuids_drawn w + 1"
  "clock_reads (posted e w) = clock_reads w"
  "trace (posted e w) = trace w @ [Post (uuid4 e (uuids_drawn w))]"
  by (simp_all add: posted_def)

lemma conflicted_fields [simp]:
  "requests (conflicted e r w) = requests w + 1"
  "uuids_drawn (conflicted e r w) = uuids_drawn w + 1"
  "clock_reads (conflicted e r w) = clock_reads w"
  "trace (conflicted e r w) =
     trace w @ [Post (uuid4 e (uuids_drawn w)), Log ERROR (Exc (HTTPStatusError r)),
                Log WARNING (Text (rstrip (response_text r) @ TRYING_AGAIN_MESSAGE))]"
  by (simp_all add: conflicted_def)

lemma handed_over_fields [simp]:
  "requests (handed_over e ts w) = requests w + 1"
  "uuids_drawn (handed_over e ts w) = uuids_drawn w + 1"
  "clock_reads (handed_over e ts w) = clock_reads w"
  "trace (handed_over e ts w) =
     trace w @ [Post (uuid4 e (uuids_drawn w)),
                Log INFO (POST_REQUEST_WAS_SENT_SUCCESSFULLY_MESSAGE (uuid4 e (uuids_drawn w))
                  MIN_TIME_FOR_RETRIEVING_REPORT_IN_SECONDS),
                Gather (uuid4 e (uuids_drawn w)) ts True]"
  by (simp_all add: handed_over_def)

lemma creator_conflict:
  assumes "server e (requests w) = Reply r" and "status_code r = 409"
  shows "ReportCreator_run (Suc n) e sleep w =
           ReportCreator_run n e False
             (conflicted e r (slept TIME_BETWEEN_REQUESTS_FOR_CREATING_REPORTS_IN_SECONDS sleep w))"
  using assms by (simp add: creator_step is_success_def Let_def del: ReportCreator_run.simps)

lemma creator_created:
  assumes "server e (requests w) = Reply r" and "status_code r = 201"
      and "ReportCreator_get_timestamp_from_response e r = Return ts"
  shows "ReportCreator_run (Suc n) e sleep w =
           ReportCreator_run n e True
             (handed_over e ts (slept TIME_BETWEEN_REQUESTS_FOR_CREATING_REPORTS_IN_SECONDS sleep w))"
  using assms by (simp add: creator_step Let_def del: ReportCreator_run.simps)

lemma creator_cycles:
  assumes "server_replies e (requests w) (map Reply rs)"
      and "list_all (continues e) rs"
  shows "ReportCreator_run (length rs + n) e sleep w =
           ReportCreator_run n e (fst (after_cycles e rs sleep w)) (snd (after_cycles e rs sleep w))"
  using assms
proof (induction rs arbitrary: sleep w)
  case Nil
  then show ?case by simp
next
  case (Cons r rs)
  let ?w = "slept TIME_BETWEEN_REQUESTS_FOR_CREATING_REPORTS_IN_SECONDS sleep w"
  show ?case
  proof (cases "status_code r = 409")
    case True
    have "ReportCreator_run (Suc (length rs + n)) e sleep w =
            ReportCreator_run (length rs + n) e False (conflicted e r ?w)"
      using Cons.prems True by (intro creator_conflict) simp_all
    also have "\<dots> = ReportCreator_run n e (fst (after_cycles e rs False (conflicted e r ?w)))
                        (snd (after_cycles e rs False (conflicted e r ?w)))"
      using Cons.prems by (intro Cons.IH) simp_all
    finally show ?thesis
      using True by simp
  next
    case False
    with Cons.prems obtain ts where r: "status_code r = 201"
      and ts: "ReportCreator_get_timestamp_from_response e r = Return ts"
      by (auto simp add: continues_def split: result.splits)
    have "ReportCreator_run (Suc (length rs + n)) e sleep w =
            ReportCreator_run (length rs + n) e True (handed_over e ts ?w)"
      using Cons.prems r ts by (intro creator_created) simp_all
    also have "\<dots> = ReportCreator_run n e (fst (after_cycles e rs True (handed_over e ts ?w)))
                        (snd (after_cycles e rs True (handed_over e ts ?w)))"
      using Cons.prems by (intro Cons.IH) simp_all
    finally show ?thesis
      using False ts by simp
  qed
qed

lemma after_cycles_counters:
  assumes "list_all (continues e) rs"
  shows "requests (snd (after_cycles e rs sleep w)) = requests w + length rs
       \<and> uuids_drawn (snd (after_cycles e rs sleep w)) = uuids_drawn w + length rs
       \<and> clock_reads (snd (after_cycles e rs sleep w)) = clock_reads w
       \<and> posts (trace (snd (after_cycles e rs sleep w))) =
           posts (trace w) @ map (uuid4 e) [uuids_drawn w..<uuids_drawn w + length rs]
       \<and> gets (trace (snd (after_cycles e rs sleep w))) = gets (trace w)
       \<and> writes (trace (snd (after_cycles e rs sleep w))) = writes (trace w)"
  using assms
proof (induction rs arbitrary: sleep w)
  case Nil
  then show ?case by simp
next
  case (Cons r rs)
  have upt: "[uuids_drawn w..<uuids_drawn w + Suc (length rs)] =
               uuids_drawn w # [Suc (uuids_drawn w)..<Suc (uuids_drawn w) + length rs]"
    by (simp add: upt_conv_Cons del: upt_Suc)
  show ?case
  proof (cases "status_code r = 409")
    case True
    then show ?thesis
      using Cons.prems Cons.IH [of False
          "conflicted e r (slept TIME_BETWEEN_REQUESTS_FOR_CREATING_REPORTS_IN_SECONDS sleep w)"] upt
      by (simp del: upt_Suc)
  next
    case False
    with Cons.prems obtain ts where
      ts: "ReportCreator_get_timestamp_from_response e r = Return ts"
      by (auto simp add: continues_def split: result.splits)
    then show ?thesis
      using False Cons.prems Cons.IH [of True
          "handed_over e ts (slept TIME_BETWEEN_REQUESTS_FOR_CREATING_REPORTS_IN_SECONDS sleep w)"] upt
      by (simp del: upt_Suc)
  qed
qed

lemma after_conflicts:
  assumes "list_all (\<lambda>x. status_code x = 409) cs"
  shows "fst (after_cycles e cs sleep w) = (if cs = [] then sleep else False)
       \<and> sleeps (trace (snd (after_cycles e cs sleep w))) =
           sleeps (trace w) @
             (if sleep \<and> cs \<noteq> [] then [TIME_BETWEEN_REQUESTS_FOR_CREATING_REPORTS_IN_SECONDS] else [])
       \<and> gathers (trace (snd (after_cycles e cs sleep w))) = gathers (trace w)
       \<and> logged WARNING (trace (snd (after_cycles e cs sleep w))) =
           logged WARNING (trace w) @
             map (\<lambda>x. Text (rstrip (response_text x) @ TRYING_AGAIN_MESSAGE)) cs"
  using assms
proof (induction cs arbitrary: sleep w)
  case Nil
  then show ?case by simp
next
  case (Cons r cs)
  then show ?case
    using Cons.IH [of False
        "conflicted e r (slept TIME_BETWEEN_REQUESTS_FOR_CREATING_REPORTS_IN_SECONDS sleep w)"]
    by simp
qed



lemma checker_send_request_last:
  assumes "server_replies e (requests w) (map Reply rs @ [x])"
      and "list_all (\<lambda>y. status_code y = REPORT_STILL_NOT_AVAILABLE_STATUS_CODE) rs"
      and "clock_within e t (clock_reads w) (length rs)"
      and "length rs \<le> n"
  shows "ReportChecker_send_request n e i t w =
           and_then (received x, after_passes e i t 0 (length rs) (first_get i w))
             (\<lambda>r1 w4. ReportChecker_while (n - length rs) e i t (length rs) r1 w4)"
proof -
  have all: "\<forall>y\<in>set rs. status_code y = 202"
    using assms(2) by (simp add: list_all_iff REPORT_STILL_NOT_AVAILABLE_STATUS_CODE_def)
  have "ReportChecker_send_request (length rs + (n - length rs)) e i t w =
          and_then (received x, after_passes e i t 0 (length rs) (first_get i w))
            (\<lambda>r1 w4. ReportChecker_while (n - length rs) e i t (length rs) r1 w4)"
    using assms(1,3) all by (rule send_request_passes)
  then show ?thesis
    using assms(4) by simp
qed

lemma checker_run_last:
  assumes "server_replies e (requests w) (map Reply rs @ [x])"
      and "list_all (\<lambda>y. status_code y = REPORT_STILL_NOT_AVAILABLE_STATUS_CODE) rs"
      and "clock_within e t (clock_reads w) (length rs)"
      and "length rs \<le> n"
      and "and_then (received x,
             after_passes e i t 0 (length rs)
               (first_get i (slept MIN_TIME_FOR_RETRIEVING_REPORT_IN_SECONDS sleep w)))
             (\<lambda>r1 w4. ReportChecker_while (n - length rs) e i t (length rs) r1 w4) = (res, w1)"
  shows "ReportChecker_run n e i t sleep w =
           (case (res, w1) of
              (Raise (HTTPStatusError r), w2) \<Rightarrow>
                (Return (), emit (Log ERROR (Exc (HTTPStatusError r))) w2)
            | (Raise (UnexpectedAPIStatusCode r), w2) \<Rightarrow>
                (Raise (SystemExit None), emit (Log ERROR (Exc (UnexpectedAPIStatusCode r))) w2)
            | (Raise (TooMuchTimePassed j), w2) \<Rightarrow>
                (Return (), emit (Log ERROR (Exc (TooMuchTimePassed j))) w2)
            | other \<Rightarrow> other)"
proof -
  let ?w0 = "slept MIN_TIME_FOR_RETRIEVING_REPORT_IN_SECONDS sleep w"
  have "ReportChecker_send_request n e i t ?w0 = (res, w1)"
    using checker_send_request_last [of e ?w0 rs x t n i] assms by simp
  then show ?thesis
    by (simp add: checker_run_result slept_def)
qed



lemma checker_connect_retrieved:
  assumes "server_replies e (requests w) (map Reply rs @ [Reply r])"
      and "list_all (\<lambda>y. status_code y = REPORT_STILL_NOT_AVAILABLE_STATUS_CODE) rs"
      and "clock_within e t (clock_reads w) (length rs)"
      and "length rs \<le> n" and "0 < n"
      and "status_code r = 200"
  shows "ReportChecker_connect n e i t sleep w =
           (case json_value r of
              Return v \<Rightarrow> Return ()
            | Raise ex \<Rightarrow> Raise ex
            | Unfinished \<Rightarrow> Unfinished,
            snd (ReportChecker_report_retrieved e i t r
              (after_passes e i t 0 (length rs)
                 (first_get i (slept MIN_TIME_FOR_RETRIEVING_REPORT_IN_SECONDS sleep w)))))"
proof -
  obtain m where n: "n = Suc m"
    using assms(5) by (cases n) simp_all
  let ?w1 = "after_passes e i t 0 (length rs)
               (first_get i (slept MIN_TIME_FOR_RETRIEVING_REPORT_IN_SECONDS sleep w))"
  have "received (Reply r) = Return r"
    using assms(6) by (simp add: received_pending)
  then have "and_then (received (Reply r), ?w1)
               (\<lambda>r1 w4. ReportChecker_while (n - length rs) e i t (length rs) r1 w4) =
             ReportChecker_report_retrieved e i t r ?w1"
    using assms(6) by (simp add: while_ready del: ReportChecker_while.simps)
  then have "ReportChecker_run n e i t sleep w =
      (case json_value r of Return v \<Rightarrow> Return () | Raise ex \<Rightarrow> Raise ex | Unfinished \<Rightarrow> Unfinished,
       snd (ReportChecker_report_retrieved e i t r ?w1))"
    using checker_run_last [OF assms(1,2,3,4), of i sleep
        "fst (ReportChecker_report_retrieved e i t r ?w1)"
        "snd (ReportChecker_report_retrieved e i t r ?w1)"] json_value_raises [of r]
    by (auto simp add: report_retrieved_result split: result.splits)
  then show ?thesis
    using n checker_connect_result [of m e i t sleep w] json_value_raises [of r]
    by (auto split: result.splits)
qed

lemma creator_run_trace_extends:
  "\<exists>evs. trace (snd (ReportCreator_run n e sleep w)) = trace w @ evs"
proof (induction n arbitrary: sleep w)
  case 0
  then show ?case by simp
next
  case (Suc n)
  let ?d = "TIME_BETWEEN_REQUESTS_FOR_CREATING_REPORTS_IN_SECONDS"
  show ?case
  proof (cases "server e (requests w)")
    case (Reply r)
    show ?thesis
    proof (cases "ReportCreator_get_timestamp_from_response e r")
      case (Return ts)
      obtain evs where "trace (snd (ReportCreator_run n e True (handed_over e ts (slept ?d sleep w)))) =
          trace (handed_over e ts (slept ?d sleep w)) @ evs"
        using Suc.IH by blast
      moreover obtain evs1 where "trace (snd (ReportCreator_run n e False (conflicted e r (slept ?d sleep w)))) =
          trace (conflicted e r (slept ?d sleep w)) @ evs1"
        using Suc.IH by blast
      ultimately show ?thesis
        using Reply Return
        by (simp add: creator_step Let_def del: ReportCreator_run.simps)
    next
      case (Raise ex)
      obtain evs1 where "trace (snd (ReportCreator_run n e False (conflicted e r (slept ?d sleep w)))) =
          trace (conflicted e r (slept ?d sleep w)) @ evs1"
        using Suc.IH by blast
      then show ?thesis
        using Reply Raise
        by (simp add: creator_step Let_def del: ReportCreator_run.simps)
    next
      case Unfinished
      then show ?thesis by simp
    qed
  next
    case ConnectTimedOut
    then show ?thesis
      by (simp add: creator_step Let_def del: ReportCreator_run.simps)
  next
    case ReadTimedOut
    then show ?thesis
      by (simp add: creator_step Let_def del: ReportCreator_run.simps)
  qed
qed

lemma creator_run_begins:
  "\<exists>evs. trace (snd (ReportCreator_run (Suc n) e sleep w)) =
           trace w @ (if sleep then [Sleep 60] else []) @ Post (uuid4 e (uuids_drawn w)) # evs"
proof -
  let ?d = "TIME_BETWEEN_REQUESTS_FOR_CREATING_REPORTS_IN_SECONDS"
  show ?thesis
  proof (cases "server e (requests w)")
    case (Reply r)
    show ?thesis
    proof (cases "ReportCreator_get_timestamp_from_response e r")
      case (Return ts)
      obtain evs where "trace (snd (ReportCreator_run n e True (handed_over e ts (slept ?d sleep w)))) =
          trace (handed_over e ts (slept ?d sleep w)) @ evs"
        using creator_run_trace_extends by blast
      moreover obtain evs1 where "trace (snd (ReportCreator_run n e False (conflicted e r (slept ?d sleep w)))) =
          trace (conflicted e r (slept ?d sleep w)) @ evs1"
        using creator_run_trace_extends by blast
      ultimately show ?thesis
        using Reply Return
        by (auto simp add: creator_step Let_def TIME_BETWEEN_REQUESTS_FOR_CREATING_REPORTS_IN_SECONDS_def simp del: ReportCreator_run.simps)
    next
      case (Raise ex)
      obtain evs1 where "trace (snd (ReportCreator_run n e False (conflicted e r (slept ?d sleep w)))) =
          trace (conflicted e r (slept ?d sleep w)) @ evs1"
        using creator_run_trace_extends by blast
      then show ?thesis
        using Reply Raise
        by (auto simp add: creator_step Let_def TIME_BETWEEN_REQUESTS_FOR_CREATING_REPORTS_IN_SECONDS_def simp del: ReportCreator_run.simps)
    next
      case Unfinished
      then show ?thesis by simp
    qed
  next
    case ConnectTimedOut
    then show ?thesis
      by (auto simp add: creator_step Let_def TIME_BETWEEN_REQUESTS_FOR_CREATING_REPORTS_IN_SECONDS_def simp del: ReportCreator_run.simps)
  next
    case ReadTimedOut
    then show ?thesis
      by (auto simp add: creator_step Let_def TIME_BETWEEN_REQUESTS_FOR_CREATING_REPORTS_IN_SECONDS_def simp del: ReportCreator_run.simps)
  qed
qed

lemma connect_trace_extends:
  assumes "\<And>s v. \<exists>evs. trace (snd (run s v)) = trace v @ evs"
  shows "\<exists>evs. trace (snd (ReportBase_connect n run sleep w)) = trace w @ evs"
proof (induction n arbitrary: w)
  case 0
  then show ?case by simp
next
  case (Suc n)
  obtain res w1 where run: "run sleep w = (res, w1)"
    by (cases "run sleep w")
  obtain evs where evs: "trace w1 = trace w @ evs"
    using assms [of sleep w] run by auto
  show ?case
  proof (cases "res = Raise ConnectTimeout")
    case True
    obtain evs1 where "trace (snd (ReportBase_connect n run sleep
        (emit (Log WARNING (Text CONNECTION_FAILED_MESSAGE)) w1))) =
        trace (emit (Log WARNING (Text CONNECTION_FAILED_MESSAGE)) w1) @ evs1"
      using Suc.IH by blast
    then show ?thesis
      using True run evs by simp
  next
    case False
    then have "ReportBase_connect (Suc n) run sleep w = run sleep w"
      using run by (intro connect_passes) simp
    then show ?thesis
      using run evs by simp
  qed
qed

lemma connect_begins:
  assumes "\<And>s v. \<exists>evs. trace (snd (run s v)) = trace v @ evs"
      and "trace (snd (run sleep w)) = trace w @ pre @ evs0"
  shows "\<exists>evs. trace (snd (ReportBase_connect (Suc n) run sleep w)) = trace w @ pre @ evs"
proof -
  obtain res w1 where run: "run sleep w = (res, w1)"
    by (cases "run sleep w")
  show ?thesis
  proof (cases "res = Raise ConnectTimeout")
    case True
    obtain evs1 where "trace (snd (ReportBase_connect n run sleep
        (emit (Log WARNING (Text CONNECTION_FAILED_MESSAGE)) w1))) =
        trace (emit (Log WARNING (Text CONNECTION_FAILED_MESSAGE)) w1) @ evs1"
      using connect_trace_extends [where run = run, OF assms(1)] by blast
    then show ?thesis
      using True run assms(2) by simp
  next
    case False
    then have "ReportBase_connect (Suc n) run sleep w = run sleep w"
      using run by (intro connect_passes) simp
    then show ?thesis
      using assms(2) by simp
  qed
qed

lemma checker_run_begins:
  "\<exists>evs. trace (snd (ReportChecker_run n e i t sleep w)) =
           trace w @ (if sleep then [Sleep 30] else []) @ Get i # evs"
proof -
  let ?w0 = "if sleep then emit (Sleep MIN_TIME_FOR_RETRIEVING_REPORT_IN_SECONDS) w else w"
  obtain evs where "trace (snd (ReportChecker_send_request n e i t ?w0)) = trace ?w0 @ Get i # evs"
    using send_request_invariant [of ?w0 n e i t] by blast
  then show ?thesis
    by (cases "ReportChecker_send_request n e i t ?w0")
       (auto simp add: checker_run_result MIN_TIME_FOR_RETRIEVING_REPORT_IN_SECONDS_def
          split: result.splits exn.splits)
qed

lemma checker_run_trace_extends:
  "\<exists>evs. trace (snd (ReportChecker_run n e i t sleep w)) = trace w @ evs"
  using checker_run_begins [of n e i t sleep w] by auto



section \<open>Unfolding the examples\<close>

lemmas example_defs =
  example_env_def example_response_def example_malformed_def example_clock_def
  example_late_clock_def world0_def

lemmas status_defs =
  REPORT_RETRIEVED_STATUS_CODE_def REQUESTS_FOR_CREATING_REPORT_SUCCESSFULLY_SENT_STATUS_CODE_def
  REPORT_STILL_NOT_AVAILABLE_STATUS_CODE_def REPORT_ALREADY_EXISTS_STATUS_CODE_def

section \<open>The claims\<close>

subsection \<open>C1: a conflict is retried at once with a new identifier\<close>

text \<open>
  C1. Let the next requests of a run of the creator be answered by responses 409 (\<open>cs\<close>,
  as many as one likes). Then the run goes on as \<^verbatim>\<open>_run(sleep=False)\<close> from a world in
  which: one request was posted per response, the request number \<open>j\<close> carrying draw
  number \<open>j\<close> of \<^verbatim>\<open>uuid4\<close> (a new draw for every attempt); for each conflict the text of
  the server, stripped, followed by the trying-again message, was logged as a warning;
  nothing was slept between the attempts (the only sleep is that of the first run, when
  it was entered with \<^verbatim>\<open>sleep\<close> true); no checker was handed over and no GET was sent.
  When the request after the conflicts is answered by a response 201 whose date parses,
  the run goes on as \<^verbatim>\<open>_run(sleep=True)\<close> from a world in which one more request was
  posted, with one more draw, and one checker was handed over, for the identifier of
  that last request and the timestamp of the 201, as the last event. In the example
  below the responses are 409, 409, 201: three requests, the identifiers \<open>u\<close>, \<open>uu\<close>,
  \<open>uuu\<close>, the checker handed over for \<open>uuu\<close>.
\<close>

theorem conflict_retry:
  assumes "server_replies e (requests w) (map Reply cs)"
      and "list_all (\<lambda>x. status_code x = REPORT_ALREADY_EXISTS_STATUS_CODE) cs"
  shows "ReportCreator_run (length cs + n) e sleep w =
           ReportCreator_run n e (if cs = [] then sleep else False)
             (snd (ReportCreator_run (length cs) e sleep w))
       \<and> posts (trace (snd (ReportCreator_run (length cs) e sleep w))) =
           posts (trace w) @ map (uuid4 e) [uuids_drawn w..<uuids_drawn w + length cs]
       \<and> requests (snd (ReportCreator_run (length cs) e sleep w)) = requests w + length cs
       \<and> logged WARNING (trace (snd (ReportCreator_run (length cs) e sleep w))) =
           logged WARNING (trace w) @
             map (\<lambda>x. Text (rstrip (response_text x) @ TRYING_AGAIN_MESSAGE)) cs
       \<and> sleeps (trace (snd (ReportCreator_run (length cs) e sleep w))) =
           sleeps (trace w) @
             (if sleep \<and> cs \<noteq> [] then [TIME_BETWEEN_REQUESTS_FOR_CREATING_REPORTS_IN_SECONDS]
              else [])
       \<and> gathers (trace (snd (ReportCreator_run (length cs) e sleep w))) = gathers (trace w)
       \<and> gets (trace (snd (ReportCreator_run (length cs) e sleep w))) = gets (trace w)
       \<and> (\<forall>r ts. server e (requests w + length cs) = Reply r
              \<and> status_code r = REQUESTS_FOR_CREATING_REPORT_SUCCESSFULLY_SENT_STATUS_CODE
              \<and> ReportCreator_get_timestamp_from_response e r = Return ts \<longrightarrow>
            ReportCreator_run (Suc (length cs) + n) e sleep w =
              ReportCreator_run n e True (snd (ReportCreator_run (Suc (length cs)) e sleep w))
            \<and> posts (trace (snd (ReportCreator_run (Suc (length cs)) e sleep w))) =
                posts (trace w) @ map (uuid4 e) [uuids_drawn w..<uuids_drawn w + Suc (length cs)]
            \<and> requests (snd (ReportCreator_run (Suc (length cs)) e sleep w)) =
                requests w + Suc (length cs)
            \<and> sleeps (trace (snd (ReportCreator_run (Suc (length cs)) e sleep w))) =
                sleeps (trace w) @
                  (if sleep then [TIME_BETWEEN_REQUESTS_FOR_CREATING_REPORTS_IN_SECONDS] else [])
            \<and> gathers (trace (snd (ReportCreator_run (Suc (length cs)) e sleep w))) =
                gathers (trace w) @ [(uuid4 e (uuids_drawn w + length cs), ts, True)]
            \<and> last (trace (snd (ReportCreator_run (Suc (length cs)) e sleep w))) =
                Gather (uuid4 e (uuids_drawn w + length cs)) ts True
            \<and> gets (trace (snd (ReportCreator_run (Suc (length cs)) e sleep w))) = gets (trace w))"
proof -
  let ?d = "TIME_BETWEEN_REQUESTS_FOR_CREATING_REPORTS_IN_SECONDS"
  let ?s = "fst (after_cycles e cs sleep w)"
  let ?w = "snd (after_cycles e cs sleep w)"
  have conf: "list_all (\<lambda>x. status_code x = 409) cs"
    using assms(2) by (simp add: REPORT_ALREADY_EXISTS_STATUS_CODE_def)
  then have cont: "list_all (continues e) cs"
    by (simp add: list_all_iff continues_def)
  note counters = after_cycles_counters [OF cont, of sleep w]
  note conflicts = after_conflicts [OF conf, of e sleep w]
  have cycles: "ReportCreator_run (length cs + m) e sleep w = ReportCreator_run m e ?s ?w" for m
    using assms(1) cont by (rule creator_cycles)
  have W: "snd (ReportCreator_run (length cs) e sleep w) = ?w"
    using cycles [of 0] by simp
  have retried: "ReportCreator_run (length cs + n) e sleep w =
      ReportCreator_run n e (if cs = [] then sleep else False) ?w"
    using cycles [of n] conflicts by simp
  have created: "ReportCreator_run (Suc (length cs) + n) e sleep w =
        ReportCreator_run n e True (snd (ReportCreator_run (Suc (length cs)) e sleep w))
      \<and> snd (ReportCreator_run (Suc (length cs)) e sleep w) = handed_over e ts (slept ?d ?s ?w)"
    if "server e (requests w + length cs) = Reply r"
      "status_code r = REQUESTS_FOR_CREATING_REPORT_SUCCESSFULLY_SENT_STATUS_CODE"
      "ReportCreator_get_timestamp_from_response e r = Return ts" for r ts
  proof -
    have r: "status_code r = 201"
      using that(2) by (simp add: REQUESTS_FOR_CREATING_REPORT_SUCCESSFULLY_SENT_STATUS_CODE_def)
    have run: "ReportCreator_run (length cs + Suc m) e sleep w =
        ReportCreator_run m e True (handed_over e ts (slept ?d ?s ?w))" for m
    proof -
      have "ReportCreator_run (Suc m) e ?s ?w =
          ReportCreator_run m e True (handed_over e ts (slept ?d ?s ?w))"
        using that(1) r that(3) counters by (intro creator_created) simp_all
      then show ?thesis
        using cycles [of "Suc m"] by simp
    qed
    show ?thesis
      using run [of n] run [of 0] by simp
  qed
  show ?thesis
  proof (intro conjI allI impI)
    fix r ts
    assume "server e (requests w + length cs) = Reply r
        \<and> status_code r = REQUESTS_FOR_CREATING_REPORT_SUCCESSFULLY_SENT_STATUS_CODE
        \<and> ReportCreator_get_timestamp_from_response e r = Return ts"
    then have c: "ReportCreator_run (Suc (length cs) + n) e sleep w =
        ReportCreator_run n e True (snd (ReportCreator_run (Suc (length cs)) e sleep w))"
      and V: "snd (ReportCreator_run (Suc (length cs)) e sleep w) = handed_over e ts (slept ?d ?s ?w)"
      using created [of r ts] by blast+
    show "ReportCreator_run (Suc (length cs) + n) e sleep w =
        ReportCreator_run n e True (snd (ReportCreator_run (Suc (length cs)) e sleep w))"
      by (rule c)
    show "posts (trace (snd (ReportCreator_run (Suc (length cs)) e sleep w))) =
        posts (trace w) @ map (uuid4 e) [uuids_drawn w..<uuids_drawn w + Suc (length cs)]"
      unfolding V using counters by simp
    show "requests (snd (ReportCreator_run (Suc (length cs)) e sleep w)) =
        requests w + Suc (length cs)"
      unfolding V using counters by simp
    show "sleeps (trace (snd (ReportCreator_run (Suc (length cs)) e sleep w))) =
        sleeps (trace w) @ (if sleep then [?d] else [])"
      unfolding V using conflicts by auto
    show "gathers (trace (snd (ReportCreator_run (Suc (length cs)) e sleep w))) =
        gathers (trace w) @ [(uuid4 e (uuids_drawn w + length cs), ts, True)]"
      unfolding V using conflicts counters by simp
    show "last (trace (snd (ReportCreator_run (Suc (length cs)) e sleep w))) =
        Gather (uuid4 e (uuids_drawn w + length cs)) ts True"
      unfolding V using counters by simp
    show "gets (trace (snd (ReportCreator_run (Suc (length cs)) e sleep w))) = gets (trace w)"
      unfolding V using counters by simp
  qed (use retried W counters conflicts in \<open>simp_all del: ReportCreator_run.simps\<close>)
qed

theorem conflict_retry_witness:
  "server_replies
     (example_env [Reply (example_response 409), Reply (example_response 409),
        Reply (example_response 201)] example_clock) 0
     (map Reply [example_response 409, example_response 409])
   \<and> list_all (\<lambda>x. status_code x = REPORT_ALREADY_EXISTS_STATUS_CODE)
        [example_response 409, example_response 409]
   \<and> server (example_env [Reply (example_response 409), Reply (example_response 409),
        Reply (example_response 201)] example_clock) 2 = Reply (example_response 201)
   \<and> status_code (example_response 201) = REQUESTS_FOR_CREATING_REPORT_SUCCESSFULLY_SENT_STATUS_CODE
   \<and> ReportCreator_get_timestamp_from_response
        (example_env [Reply (example_response 409), Reply (example_response 409),
           Reply (example_response 201)] example_clock) (example_response 201) = Return 1679230894
   \<and> logged WARNING (trace (snd (ReportCreator_run 2
        (example_env [Reply (example_response 409), Reply (example_response 409),
           Reply (example_response 201)] example_clock) False world0))) =
       [Text (''Report already exists'' @ [CHR 0x0A] @ ''Trying again...''),
        Text (''Report already exists'' @ [CHR 0x0A] @ ''Trying again...'')]
   \<and> posts (trace (snd (ReportCreator_run 3
        (example_env [Reply (example_response 409), Reply (example_response 409),
           Reply (example_response 201)] example_clock) False world0))) = [''u'', ''uu'', ''uuu'']
   \<and> distinct [''u'', ''uu'', ''uuu'']
   \<and> requests (snd (ReportCreator_run 3
        (example_env [Reply (example_response 409), Reply (example_response 409),
           Reply (example_response 201)] example_clock) False world0)) = 3
   \<and> sleeps (trace (snd (ReportCreator_run 3
        (example_env [Reply (example_response 409), Reply (example_response 409),
           Reply (example_response 201)] example_clock) False world0))) = []
   \<and> gathers (trace (snd (ReportCreator_run 3
        (example_env [Reply (example_response 409), Reply (example_response 409),
           Reply (example_response 201)] example_clock) False world0))) =
       [(''uuu'', 1679230894, True)]
   \<and> last (trace (snd (ReportCreator_run 3
        (example_env [Reply (example_response 409), Reply (example_response 409),
           Reply (example_response 201)] example_clock) False world0))) =
       Gather ''uuu'' 1679230894 True
   \<and> gets (trace (snd (ReportCreator_run 3
        (example_env [Reply (example_response 409), Reply (example_response 409),
           Reply (example_response 201)] example_clock) False world0))) = []"
proof -
  let ?e = "example_env [Reply (example_response 409), Reply (example_response 409),
              Reply (example_response 201)] example_clock"
  let ?cs = "[example_response 409, example_response 409]"
  have h1: "server_replies ?e (requests world0) (map Reply ?cs)"
    by (simp add: example_defs)
  have h2: "list_all (\<lambda>x. status_code x = REPORT_ALREADY_EXISTS_STATUS_CODE) ?cs"
    by (simp add: example_defs status_defs)
  have h3: "server ?e (requests world0 + length ?cs) = Reply (example_response 201)"
    by (simp add: example_defs)
  have h4: "status_code (example_response 201) =
      REQUESTS_FOR_CREATING_REPORT_SUCCESSFULLY_SENT_STATUS_CODE"
    by (simp add: example_defs status_defs)
  have h5: "ReportCreator_get_timestamp_from_response ?e (example_response 201) =
      Return 1679230894"
    by (simp add: example_defs ReportCreator_get_timestamp_from_response_def)
  have stripped: "rstrip (''Report already exists '' @ [CHR 0x0A]) = ''Report already exists''"
    by (simp add: rstrip_def isspace_def)
  note c = conflict_retry [OF h1 h2, of 0 False]
  have c1: "logged WARNING (trace (snd (ReportCreator_run (length ?cs) ?e False world0))) =
      logged WARNING (trace world0) @
        map (\<lambda>x. Text (rstrip (response_text x) @ TRYING_AGAIN_MESSAGE)) ?cs"
    using c by blast
  have c2: "posts (trace (snd (ReportCreator_run (Suc (length ?cs)) ?e False world0))) =
        posts (trace world0) @
          map (uuid4 ?e) [uuids_drawn world0..<uuids_drawn world0 + Suc (length ?cs)]
      \<and> requests (snd (ReportCreator_run (Suc (length ?cs)) ?e False world0)) =
          requests world0 + Suc (length ?cs)
      \<and> sleeps (trace (snd (ReportCreator_run (Suc (length ?cs)) ?e False world0))) =
          sleeps (trace world0) @
            (if False then [TIME_BETWEEN_REQUESTS_FOR_CREATING_REPORTS_IN_SECONDS] else [])
      \<and> gathers (trace (snd (ReportCreator_run (Suc (length ?cs)) ?e False world0))) =
          gathers (trace world0) @
            [(uuid4 ?e (uuids_drawn world0 + length ?cs), 1679230894, True)]
      \<and> last (trace (snd (ReportCreator_run (Suc (length ?cs)) ?e False world0))) =
          Gather (uuid4 ?e (uuids_drawn world0 + length ?cs)) 1679230894 True
      \<and> gets (trace (snd (ReportCreator_run (Suc (length ?cs)) ?e False world0))) =
          gets (trace world0)"
    using c h3 h4 h5 by blast
  have two: "length ?cs = 2" and three: "Suc 2 = 3"
    by simp_all
  show ?thesis
    using h1 h2 h3 h4 h5 c1 c2 stripped
    unfolding two three
    by (simp add: example_defs TRYING_AGAIN_MESSAGE_def eval_nat_numeral
        del: ReportCreator_run.simps)
qed

subsection \<open>C2: the poll loop expires after the maximal wait\<close>

text \<open>
  C2. Let the requests of a poll run with creation timestamp \<open>T0\<close> be answered by
  responses 202 only, let the first readings of the clock be at most 300 seconds after
  \<open>T0\<close> (one reading after each of the responses \<open>rs\<close>) and let the next reading, after
  the response \<open>r\<close>, be more than 300 seconds after \<open>T0\<close>. Then \<^verbatim>\<open>connect\<close> returns
  normally, its last event is the error log of \<^verbatim>\<open>TooMuchTimePassed\<close>, nothing was written
  to the file, and the GET requests are those that were answered by \<open>rs\<close> and \<open>r\<close>: none
  is sent after the reading that exceeds the maximal wait. The example is a single
  response 202 read 301 seconds after \<open>T0\<close>.
\<close>

theorem poll_expired:
  assumes "server_replies e (requests w) (map Reply (rs @ [r]))"
      and "list_all (\<lambda>x. status_code x = REPORT_STILL_NOT_AVAILABLE_STATUS_CODE) (rs @ [r])"
      and "clock_within e T0 (clock_reads w) (length rs)"
      and "utcnow e (clock_reads w + length rs) - T0 > MAX_TIME_FOR_RETRIEVING_REPORT_IN_SECONDS"
      and "length rs < n"
  shows "fst (ReportChecker_connect n e i T0 sleep w) = Return ()
       \<and> last (trace (snd (ReportChecker_connect n e i T0 sleep w))) =
           Log ERROR (Exc (TooMuchTimePassed i))
       \<and> writes (trace (snd (ReportChecker_connect n e i T0 sleep w))) = writes (trace w)
       \<and> gets (trace (snd (ReportChecker_connect n e i T0 sleep w))) =
           gets (trace w) @ replicate (Suc (length rs)) i
       \<and> requests (snd (ReportChecker_connect n e i T0 sleep w)) = requests w + Suc (length rs)
       \<and> clock_reads (snd (ReportChecker_connect n e i T0 sleep w)) =
           clock_reads w + Suc (length rs)"
proof -
  define m where "m = n - Suc (length rs)"
  have n: "n = length rs + Suc m"
    using assms(5) by (simp add: m_def)
  let ?w0 = "slept MIN_TIME_FOR_RETRIEVING_REPORT_IN_SECONDS sleep w"
  let ?w1 = "after_passes e i T0 0 (length rs) (first_get i ?w0)"
  have all: "\<forall>y\<in>set rs. status_code y = 202" and r: "status_code r = 202"
    using assms(2) by (simp_all add: list_all_iff REPORT_STILL_NOT_AVAILABLE_STATUS_CODE_def)
  have "ReportChecker_send_request (length rs + Suc m) e i T0 ?w0 =
          and_then (received (Reply r), ?w1)
            (\<lambda>r1 w4. ReportChecker_while (Suc m) e i T0 (length rs) r1 w4)"
    using assms(1,3) all by (intro send_request_passes) simp_all
  also have "\<dots> = ReportChecker_while (Suc m) e i T0 (length rs) r ?w1"
    using r by (simp add: received_pending)
  also have "\<dots> = (Raise (TooMuchTimePassed i), ?w1\<lparr>clock_reads := clock_reads ?w1 + 1\<rparr>)"
    using r assms(4) by (intro while_expired) (simp_all add: after_passes_fields)
  finally have send: "ReportChecker_send_request n e i T0 ?w0 =
      (Raise (TooMuchTimePassed i), ?w1\<lparr>clock_reads := clock_reads ?w1 + 1\<rparr>)"
    using n by simp
  have "ReportChecker_run n e i T0 sleep w =
      (Return (), emit (Log ERROR (Exc (TooMuchTimePassed i)))
         (?w1\<lparr>clock_reads := clock_reads ?w1 + 1\<rparr>))"
    using send by (simp add: checker_run_result slept_def)
  then have "ReportChecker_connect n e i T0 sleep w =
      (Return (), emit (Log ERROR (Exc (TooMuchTimePassed i)))
         (?w1\<lparr>clock_reads := clock_reads ?w1 + 1\<rparr>))"
    using n checker_connect_result [of "length rs + m" e i T0 sleep w] by simp
  then show ?thesis
    by (simp add: after_passes_fields)
qed

theorem poll_expired_witness:
  "server_replies (example_env [Reply (example_response 202)] example_late_clock) 0
     (map Reply ([] @ [example_response 202]))
   \<and> list_all (\<lambda>x. status_code x = REPORT_STILL_NOT_AVAILABLE_STATUS_CODE)
        ([] @ [example_response 202])
   \<and> clock_within (example_env [Reply (example_response 202)] example_late_clock) 1679230894 0 0
   \<and> utcnow (example_env [Reply (example_response 202)] example_late_clock) 0 - 1679230894
        > MAX_TIME_FOR_RETRIEVING_REPORT_IN_SECONDS
   \<and> fst (ReportChecker_connect 1 (example_env [Reply (example_response 202)] example_late_clock)
        ''id'' 1679230894 True world0) = Return ()
   \<and> last (trace (snd (ReportChecker_connect 1
        (example_env [Reply (example_response 202)] example_late_clock)
        ''id'' 1679230894 True world0))) = Log ERROR (Exc (TooMuchTimePassed ''id''))
   \<and> writes (trace (snd (ReportChecker_connect 1
        (example_env [Reply (example_response 202)] example_late_clock)
        ''id'' 1679230894 True world0))) = []
   \<and> gets (trace (snd (ReportChecker_connect 1
        (example_env [Reply (example_response 202)] example_late_clock)
        ''id'' 1679230894 True world0))) = [''id'']
   \<and> requests (snd (ReportChecker_connect 1
        (example_env [Reply (example_response 202)] example_late_clock)
        ''id'' 1679230894 True world0)) = 1"
proof -
  let ?e = "example_env [Reply (example_response 202)] example_late_clock"
  have h1: "server_replies ?e (requests world0) (map Reply ([] @ [example_response 202]))"
    by (simp add: example_defs)
  have h2: "list_all (\<lambda>x. status_code x = REPORT_STILL_NOT_AVAILABLE_STATUS_CODE)
              ([] @ [example_response 202])"
    by (simp add: example_defs status_defs)
  have h3: "clock_within ?e 1679230894 (clock_reads world0) (length ([]::response list))"
    by simp
  have h4: "utcnow ?e (clock_reads world0 + length ([]::response list)) - 1679230894
              > MAX_TIME_FOR_RETRIEVING_REPORT_IN_SECONDS"
    by (simp add: example_defs MAX_TIME_FOR_RETRIEVING_REPORT_IN_SECONDS_def)
  have h5: "length ([]::response list) < 1"
    by simp
  note c = poll_expired [OF h1 h2 h3 h4 h5, of "''id''" True]
  show ?thesis
    using h1 h2 h3 h4 c by (simp add: world0_def)
qed

subsection \<open>C3: a ready report gives exactly one record\<close>



subsection \<open>C4: which unexpected status codes end the process\<close>




subsection \<open>C5: the exit status\<close>




subsection \<open>C6: the line of a record\<close>

text \<open>
  C6 does not hold where it says that every record is exactly one line of text: the value
  is put into the template as it is, so a report whose value is \<open>a\<close>, a line feed and
  \<open>b\<close> gives a record with two line feeds, that is, of two lines.
\<close>

theorem record_of_two_lines:
  "json_value example_two_lines = Return (JString (''a'' @ [CHR 0x0A] @ ''b''))
   \<and> ReportChecker_connect 1 (example_env [Reply example_two_lines] example_clock)
        ''id'' 1679230894 True world0 =
       (Return (),
        \<lparr>requests = 1, uuids_drawn = 0, clock_reads = 0,
         trace = [Sleep 30, Get ''id'', Log INFO (REPORT_SUCCESSFULLY_RETRIEVED_MESSAGE ''id''),
                  Write (''1679230894.0;a'' @ [CHR 0x0A] @ ''b'' @ [CHR 0x5C, CHR ''n'', CHR 0x0A])]\<rparr>)
   \<and> count_list (''1679230894.0;a'' @ [CHR 0x0A] @ ''b'' @ [CHR 0x5C, CHR ''n'', CHR 0x0A])
        (CHR 0x0A) = 2"
proof -
  let ?e = "example_env [Reply example_two_lines] example_clock"
  have v: "json_value example_two_lines = Return (JString (''a'' @ [CHR 0x0A] @ ''b''))"
    by (simp add: example_two_lines_def json_value_def)
  have "ReportChecker_connect 1 ?e ''id'' 1679230894 True world0 =
      (case json_value example_two_lines of
         Return v \<Rightarrow> Return () | Raise ex \<Rightarrow> Raise ex | Unfinished \<Rightarrow> Unfinished,
       snd (ReportChecker_report_retrieved ?e ''id'' 1679230894 example_two_lines
         (after_passes ?e ''id'' 1679230894 0 (length ([]::response list))
            (first_get ''id'' (slept MIN_TIME_FOR_RETRIEVING_REPORT_IN_SECONDS True world0)))))"
    by (rule checker_connect_retrieved) (simp_all add: example_defs example_two_lines_def)
  then show ?thesis
    using v
    by (simp add: report_retrieved_result csv_line_def str_of_def example_defs first_get_def
        slept_def emit_def MIN_TIME_FOR_RETRIEVING_REPORT_IN_SECONDS_def)
qed

text \<open>
  C6, as the code has it. Every record appended to \<^verbatim>\<open>results.csv\<close> is written by one
  \<^verbatim>\<open>write\<close> and is the timestamp, a semicolon, the value, a backslash, the letter n and a
  line feed: the template \<^verbatim>\<open>LINE_FOR_CSV\<close> adds, besides the semicolon, a backslash, the
  letter n and one line feed, which is the last character. The record has as many line
  feeds as the rendered timestamp and the value have, and one more; it is exactly one
  line of text (one line feed, at its end) when neither of the two contains a line feed.
\<close>

theorem csv_line_format:
  "ReportChecker_add_new_line_to_csv e t v w =
     (Return (),
      emit (Write (float_str e t @ '';'' @ str_of e v @ [CHR 0x5C, CHR ''n'', CHR 0x0A])) w)
   \<and> writes (trace (snd (ReportChecker_add_new_line_to_csv e t v w))) =
       writes (trace w) @ [float_str e t @ '';'' @ str_of e v @ [CHR 0x5C, CHR ''n'', CHR 0x0A]]
   \<and> format LINE_FOR_CSV [(''timestamp'', []), (''value'', [])] =
       Return [CHR '';'', CHR 0x5C, CHR ''n'', CHR 0x0A]
   \<and> last (float_str e t @ '';'' @ str_of e v @ [CHR 0x5C, CHR ''n'', CHR 0x0A]) = CHR 0x0A
   \<and> count_list (float_str e t @ '';'' @ str_of e v @ [CHR 0x5C, CHR ''n'', CHR 0x0A]) (CHR 0x0A) =
       count_list (float_str e t) (CHR 0x0A) + count_list (str_of e v) (CHR 0x0A) + 1
   \<and> (CHR 0x0A \<notin> set (float_str e t) \<and> CHR 0x0A \<notin> set (str_of e v) \<longrightarrow>
        count_list (float_str e t @ '';'' @ str_of e v @ [CHR 0x5C, CHR ''n'', CHR 0x0A])
          (CHR 0x0A) = 1
        \<and> CHR 0x0A \<notin> set (butlast
              (float_str e t @ '';'' @ str_of e v @ [CHR 0x5C, CHR ''n'', CHR 0x0A])))"
proof -
  have butlast: "butlast (float_str e t @ '';'' @ str_of e v @ [CHR 0x5C, CHR ''n'', CHR 0x0A]) =
      float_str e t @ '';'' @ str_of e v @ [CHR 0x5C, CHR ''n'']"
    by (simp add: butlast_append)
  show ?thesis
    unfolding butlast
    by (simp add: add_new_line format_LINE_FOR_CSV count_list_0_iff)
qed

theorem csv_line_format_witness:
  "CHR 0x0A \<notin> set (float_str (example_env [] example_clock) 1679230894)
   \<and> CHR 0x0A \<notin> set (str_of (example_env [] example_clock) (JString ''x''))
   \<and> ReportChecker_add_new_line_to_csv (example_env [] example_clock) 1679230894
        (JString ''x'') world0 =
       (Return (),
        \<lparr>requests = 0, uuids_drawn = 0, clock_reads = 0,
         trace = [Write (''1679230894.0;x'' @ [CHR 0x5C, CHR ''n'', CHR 0x0A])]\<rparr>)
   \<and> count_list (''1679230894.0;x'' @ [CHR 0x5C, CHR ''n'', CHR 0x0A]) (CHR 0x0A) = 1
   \<and> CHR 0x0A \<notin> set (butlast (''1679230894.0;x'' @ [CHR 0x5C, CHR ''n'', CHR 0x0A]))"
proof -
  let ?e = "example_env [] example_clock"
  have h1: "CHR 0x0A \<notin> set (float_str ?e 1679230894)"
    by (simp add: example_env_def)
  have h2: "CHR 0x0A \<notin> set (str_of ?e (JString ''x''))"
    by (simp add: str_of_def)
  note c = csv_line_format [of ?e 1679230894 "JString ''x''" world0]
  have c1: "ReportChecker_add_new_line_to_csv ?e 1679230894 (JString ''x'') world0 =
      (Return (),
       emit (Write (float_str ?e 1679230894 @ '';'' @ str_of ?e (JString ''x'') @
                      [CHR 0x5C, CHR ''n'', CHR 0x0A])) world0)"
    using c by blast
  have c2: "count_list (float_str ?e 1679230894 @ '';'' @ str_of ?e (JString ''x'') @
        [CHR 0x5C, CHR ''n'', CHR 0x0A]) (CHR 0x0A) = 1
      \<and> CHR 0x0A \<notin> set (butlast (float_str ?e 1679230894 @ '';'' @ str_of ?e (JString ''x'') @
            [CHR 0x5C, CHR ''n'', CHR 0x0A]))"
    using c h1 h2 by blast
  show ?thesis
    using h1 h2 c1 c2
    by (simp add: example_env_def str_of_def world0_def emit_def)
qed

subsection \<open>C7: sleeping before a request\<close>

text \<open>
  C7. Every run of the creator with enough fuel for one request starts by sleeping 60
  seconds exactly when \<^verbatim>\<open>sleep\<close> is true and then posts; every run of the checker starts
  by sleeping 30 seconds exactly when \<^verbatim>\<open>sleep\<close> is true and then sends its GET; the same
  holds for \<^verbatim>\<open>connect\<close>, which passes its \<^verbatim>\<open>sleep\<close> on. After a response 201 whose
  date parses the checker is handed over with \<^verbatim>\<open>sleep\<close> true, as the last event before
  the creator runs again, and it runs again with \<^verbatim>\<open>sleep\<close> true. A pass of the loop of
  the checker over a pending response read within the maximal wait logs, sleeps 0.8
  seconds and sends the next GET.
\<close>

theorem sleep_before_request:
  "(\<exists>evs. trace (snd (ReportCreator_run (Suc n) e sleep w)) =
           trace w @ (if sleep then [Sleep 60] else []) @ Post (uuid4 e (uuids_drawn w)) # evs)
   \<and> (\<exists>evs. trace (snd (ReportChecker_run n e i t sleep w)) =
           trace w @ (if sleep then [Sleep 30] else []) @ Get i # evs)
   \<and> (\<exists>evs. trace (snd (ReportCreator_connect (Suc n) e sleep w)) =
           trace w @ (if sleep then [Sleep 60] else []) @ Post (uuid4 e (uuids_drawn w)) # evs)
   \<and> (\<exists>evs. trace (snd (ReportChecker_connect (Suc n) e i t sleep w)) =
           trace w @ (if sleep then [Sleep 30] else []) @ Get i # evs)
   \<and> (\<forall>r ts. server e (requests w) = Reply r
          \<and> status_code r = REQUESTS_FOR_CREATING_REPORT_SUCCESSFULLY_SENT_STATUS_CODE
          \<and> ReportCreator_get_timestamp_from_response e r = Return ts \<longrightarrow>
         ReportCreator_run (Suc n) e sleep w =
           ReportCreator_run n e True (snd (ReportCreator_run 1 e sleep w))
         \<and> last (trace (snd (ReportCreator_run 1 e sleep w))) =
             Gather (uuid4 e (uuids_drawn w)) ts True)
   \<and> (\<forall>r. status_code r = REPORT_STILL_NOT_AVAILABLE_STATUS_CODE
          \<and> utcnow e (clock_reads w) - t \<le> MAX_TIME_FOR_RETRIEVING_REPORT_IN_SECONDS \<longrightarrow>
         (\<exists>evs. trace (snd (ReportChecker_while (Suc n) e i t c r w)) =
            trace w @ [Log DEBUG (REPORT_STILL_NOT_AVAILABLE_MESSAGE i
                         (round1 (utcnow e (clock_reads w) - t)) (c + 1)),
                       Sleep (8 / 10), Get i] @ evs))"
proof -
  have creator: "\<exists>evs. trace (snd (ReportCreator_connect (Suc n) e sleep w)) =
      trace w @ (if sleep then [Sleep 60] else []) @ Post (uuid4 e (uuids_drawn w)) # evs"
  proof -
    obtain evs0 where "trace (snd (ReportCreator_run (Suc n) e sleep w)) =
        trace w @ ((if sleep then [Sleep 60] else []) @ [Post (uuid4 e (uuids_drawn w))]) @ evs0"
      using creator_run_begins [of n e sleep w] by auto
    then have "\<exists>evs. trace (snd (ReportBase_connect (Suc n) (ReportCreator_run (Suc n) e) sleep w)) =
        trace w @ ((if sleep then [Sleep 60] else []) @ [Post (uuid4 e (uuids_drawn w))]) @ evs"
      by (intro connect_begins creator_run_trace_extends)
    then show ?thesis
      by (simp add: ReportCreator_connect_def)
  qed
  have checker: "\<exists>evs. trace (snd (ReportChecker_connect (Suc n) e i t sleep w)) =
      trace w @ (if sleep then [Sleep 30] else []) @ Get i # evs"
  proof -
    obtain evs0 where "trace (snd (ReportChecker_run (Suc n) e i t sleep w)) =
        trace w @ ((if sleep then [Sleep 30] else []) @ [Get i]) @ evs0"
      using checker_run_begins [of "Suc n" e i t sleep w] by auto
    then have "\<exists>evs. trace (snd (ReportBase_connect (Suc n) (ReportChecker_run (Suc n) e i t) sleep w)) =
        trace w @ ((if sleep then [Sleep 30] else []) @ [Get i]) @ evs"
      by (intro connect_begins checker_run_trace_extends)
    then show ?thesis
      by (simp add: ReportChecker_connect_def)
  qed
  have created: "ReportCreator_run (Suc n) e sleep w =
           ReportCreator_run n e True (snd (ReportCreator_run 1 e sleep w))
         \<and> last (trace (snd (ReportCreator_run 1 e sleep w))) =
             Gather (uuid4 e (uuids_drawn w)) ts True"
    if "server e (requests w) = Reply r"
      "status_code r = REQUESTS_FOR_CREATING_REPORT_SUCCESSFULLY_SENT_STATUS_CODE"
      "ReportCreator_get_timestamp_from_response e r = Return ts" for r ts
  proof -
    have r: "status_code r = 201"
      using that(2) by (simp add: REQUESTS_FOR_CREATING_REPORT_SUCCESSFULLY_SENT_STATUS_CODE_def)
    have step: "ReportCreator_run (Suc m) e sleep w =
        ReportCreator_run m e True
          (handed_over e ts (slept TIME_BETWEEN_REQUESTS_FOR_CREATING_REPORTS_IN_SECONDS sleep w))" for m
      using that(1) r that(3) by (rule creator_created)
    show ?thesis
      using step [of n] step [of 0] by simp
  qed
  have pass: "\<exists>evs. trace (snd (ReportChecker_while (Suc n) e i t c r w)) =
            trace w @ [Log DEBUG (REPORT_STILL_NOT_AVAILABLE_MESSAGE i
                         (round1 (utcnow e (clock_reads w) - t)) (c + 1)),
                       Sleep (8 / 10), Get i] @ evs"
    if "status_code r = REPORT_STILL_NOT_AVAILABLE_STATUS_CODE"
      "utcnow e (clock_reads w) - t \<le> MAX_TIME_FOR_RETRIEVING_REPORT_IN_SECONDS" for r
  proof -
    have r: "status_code r = 202"
      using that(1) by (simp add: REPORT_STILL_NOT_AVAILABLE_STATUS_CODE_def)
    have step: "ReportChecker_while (Suc n) e i t c r w =
        and_then (received (server e (requests w)), after_pass e i t c w)
          (\<lambda>r1 w4. ReportChecker_while n e i t (c + 1) r1 w4)"
      using r that(2) by (rule while_pass)
    show ?thesis
    proof (cases "received (server e (requests w))")
      case (Return r1)
      obtain evs where "trace (snd (ReportChecker_while n e i t (c + 1) r1 (after_pass e i t c w))) =
          trace (after_pass e i t c w) @ evs"
        using while_trace_extends by blast
      then show ?thesis
        unfolding step using Return
        by (simp add: after_pass_def TIME_BETWEEN_GET_REQUESTS_IN_SECONDS_def
            del: ReportChecker_while.simps)
    next
      case (Raise ex)
      then show ?thesis
        unfolding step
        by (simp add: after_pass_def TIME_BETWEEN_GET_REQUESTS_IN_SECONDS_def)
    next
      case Unfinished
      then show ?thesis by simp
    qed
  qed
  show ?thesis
    using creator_run_begins [of n e sleep w] checker_run_begins [of n e i t sleep w]
      creator checker created pass by blast
qed

theorem sleep_before_request_witness:
  "server (example_env [Reply (example_response 201)] example_clock) 0 =
     Reply (example_response 201)
   \<and> status_code (example_response 201) =
       REQUESTS_FOR_CREATING_REPORT_SUCCESSFULLY_SENT_STATUS_CODE
   \<and> ReportCreator_get_timestamp_from_response
       (example_env [Reply (example_response 201)] example_clock) (example_response 201) =
       Return 1679230894
   \<and> status_code (example_response 202) = REPORT_STILL_NOT_AVAILABLE_STATUS_CODE
   \<and> utcnow (example_env [Reply (example_response 201)] example_clock) 0 - 1679230894
       \<le> MAX_TIME_FOR_RETRIEVING_REPORT_IN_SECONDS
   \<and> (\<exists>evs. trace (snd (ReportCreator_run 2
          (example_env [Reply (example_response 201)] example_clock) True world0)) =
        [Sleep 60, Post ''u''] @ evs)
   \<and> (\<exists>evs. trace (snd (ReportChecker_connect 2
          (example_env [Reply (example_response 201)] example_clock)
          ''id'' 1679230894 True world0)) =
        [Sleep 30, Get ''id''] @ evs)
   \<and> ReportCreator_run 2 (example_env [Reply (example_response 201)] example_clock) True world0 =
       ReportCreator_run 1 (example_env [Reply (example_response 201)] example_clock) True
         (snd (ReportCreator_run 1
            (example_env [Reply (example_response 201)] example_clock) True world0))
   \<and> last (trace (snd (ReportCreator_run 1
        (example_env [Reply (example_response 201)] example_clock) True world0))) =
       Gather ''u'' 1679230894 True
   \<and> (\<exists>evs. trace (snd (ReportChecker_while 2
          (example_env [Reply (example_response 201)] example_clock)
          ''id'' 1679230894 0 (example_response 202) world0)) =
        [Log DEBUG (REPORT_STILL_NOT_AVAILABLE_MESSAGE ''id'' 31 1), Sleep (8 / 10), Get ''id'']
          @ evs)"
proof -
  let ?e = "example_env [Reply (example_response 201)] example_clock"
  have h1: "server ?e (requests world0) = Reply (example_response 201)"
    by (simp add: example_defs)
  have h2: "status_code (example_response 201) =
      REQUESTS_FOR_CREATING_REPORT_SUCCESSFULLY_SENT_STATUS_CODE"
    by (simp add: example_defs status_defs)
  have h3: "ReportCreator_get_timestamp_from_response ?e (example_response 201) =
      Return 1679230894"
    by (simp add: example_defs ReportCreator_get_timestamp_from_response_def)
  have h4: "status_code (example_response 202) = REPORT_STILL_NOT_AVAILABLE_STATUS_CODE"
    by (simp add: example_defs status_defs)
  have h5: "utcnow ?e (clock_reads world0) - 1679230894
      \<le> MAX_TIME_FOR_RETRIEVING_REPORT_IN_SECONDS"
    by (simp add: example_defs MAX_TIME_FOR_RETRIEVING_REPORT_IN_SECONDS_def)
  have r: "round1 (utcnow ?e (clock_reads world0) - 1679230894) = 31"
    by (simp add: example_defs round1_def Let_def)
  note c = sleep_before_request [of 1 ?e True world0 "''id''" 1679230894 0]
  have c1: "\<exists>evs. trace (snd (ReportCreator_run (Suc 1) ?e True world0)) =
      trace world0 @ (if True then [Sleep 60] else []) @ Post (uuid4 ?e (uuids_drawn world0)) # evs"
    and c2: "\<exists>evs. trace (snd (ReportChecker_connect (Suc 1) ?e ''id'' 1679230894 True world0)) =
      trace world0 @ (if True then [Sleep 30] else []) @ Get ''id'' # evs"
    using c by blast+
  have c3: "ReportCreator_run (Suc 1) ?e True world0 =
        ReportCreator_run 1 ?e True (snd (ReportCreator_run 1 ?e True world0))
      \<and> last (trace (snd (ReportCreator_run 1 ?e True world0))) =
          Gather (uuid4 ?e (uuids_drawn world0)) 1679230894 True"
    using c h1 h2 h3 by blast
  have c4: "\<exists>evs. trace (snd (ReportChecker_while (Suc 1) ?e ''id'' 1679230894 0
      (example_response 202) world0)) =
      trace world0 @ [Log DEBUG (REPORT_STILL_NOT_AVAILABLE_MESSAGE ''id''
         (round1 (utcnow ?e (clock_reads world0) - 1679230894)) (0 + 1)), Sleep (8 / 10), Get ''id'']
        @ evs"
    using c h4 h5 by blast
  have two: "Suc 1 = 2"
    by simp
  show ?thesis
    using h1 h2 h3 h4 h5 c1 c2 c3 c4 [unfolded r]
    unfolding two
    by (simp add: world0_def example_env_def del: ReportCreator_run.simps ReportChecker_while.simps)
qed

subsection \<open>C9: the deadline is checked only after a pending response\<close>

text \<open>
  C9. Every call of \<^verbatim>\<open>ReportChecker._send_request\<close> sends a GET first. It reads the
  clock at most as many times as it received responses 202. When it raises
  \<^verbatim>\<open>TooMuchTimePassed\<close>, it has read the clock and the last response it received was a
  202. When its requests are answered by pending responses read within the maximal wait
  and then by a response 200 with a value, \<^verbatim>\<open>connect\<close> returns normally with the record
  written and the clock was read once per pending response only: the time at which the
  200 arrives is never compared with the maximal wait. In the second example the
  response 200 arrives when the clock is 309 seconds after the creation.
\<close>

theorem deadline_check_follows_pending:
  "requests w < requests (snd (ReportChecker_send_request n e i t w))
   \<and> (\<exists>evs. trace (snd (ReportChecker_send_request n e i t w)) = trace w @ Get i # evs)
   \<and> clock_reads (snd (ReportChecker_send_request n e i t w)) - clock_reads w
       \<le> pending_among e (requests w)
            (requests (snd (ReportChecker_send_request n e i t w)) - requests w)
   \<and> (\<forall>j. fst (ReportChecker_send_request n e i t w) = Raise (TooMuchTimePassed j) \<longrightarrow>
         clock_reads w < clock_reads (snd (ReportChecker_send_request n e i t w))
         \<and> is_pending (server e (requests (snd (ReportChecker_send_request n e i t w)) - 1)))
   \<and> (\<forall>ps r v. server_replies e (requests w) (map Reply ps @ [Reply r])
          \<and> list_all (\<lambda>y. status_code y = REPORT_STILL_NOT_AVAILABLE_STATUS_CODE) ps
          \<and> clock_within e t (clock_reads w) (length ps)
          \<and> length ps \<le> n
          \<and> status_code r = REPORT_RETRIEVED_STATUS_CODE
          \<and> json_value r = Return v \<longrightarrow>
         fst (ReportChecker_connect (Suc n) e i t sleep w) = Return ()
         \<and> writes (trace (snd (ReportChecker_connect (Suc n) e i t sleep w))) =
             writes (trace w) @
               [float_str e t @ '';'' @ str_of e v @ [CHR 0x5C, CHR ''n'', CHR 0x0A]]
         \<and> clock_reads (snd (ReportChecker_connect (Suc n) e i t sleep w)) =
             clock_reads w + length ps)"
proof -
  have ready: "fst (ReportChecker_connect (Suc n) e i t sleep w) = Return ()
         \<and> writes (trace (snd (ReportChecker_connect (Suc n) e i t sleep w))) =
             writes (trace w) @
               [float_str e t @ '';'' @ str_of e v @ [CHR 0x5C, CHR ''n'', CHR 0x0A]]
         \<and> clock_reads (snd (ReportChecker_connect (Suc n) e i t sleep w)) =
             clock_reads w + length ps"
    if "server_replies e (requests w) (map Reply ps @ [Reply r])"
      "list_all (\<lambda>y. status_code y = REPORT_STILL_NOT_AVAILABLE_STATUS_CODE) ps"
      "clock_within e t (clock_reads w) (length ps)"
      "length ps \<le> n"
      "status_code r = REPORT_RETRIEVED_STATUS_CODE"
      "json_value r = Return v" for ps r v
  proof -
    have "ReportChecker_connect (Suc n) e i t sleep w =
        (case json_value r of Return v \<Rightarrow> Return () | Raise ex \<Rightarrow> Raise ex | Unfinished \<Rightarrow> Unfinished,
         snd (ReportChecker_report_retrieved e i t r
           (after_passes e i t 0 (length ps)
              (first_get i (slept MIN_TIME_FOR_RETRIEVING_REPORT_IN_SECONDS sleep w)))))"
      using that by (intro checker_connect_retrieved)
        (simp_all add: REPORT_RETRIEVED_STATUS_CODE_def)
    then show ?thesis
      using that(6) by (simp add: report_retrieved_result csv_line_def after_passes_fields)
  qed
  show ?thesis
    using send_request_invariant [of w n e i t] ready by blast
qed

theorem deadline_check_follows_pending_witness:
  "fst (ReportChecker_send_request 1 (example_env [Reply (example_response 202)] example_late_clock)
      ''id'' 1679230894 world0) = Raise (TooMuchTimePassed ''id'')
   \<and> is_pending (server (example_env [Reply (example_response 202)] example_late_clock) 0)
   \<and> clock_reads (snd (ReportChecker_send_request 1
        (example_env [Reply (example_response 202)] example_late_clock)
        ''id'' 1679230894 world0)) = 1
   \<and> requests (snd (ReportChecker_send_request 1
        (example_env [Reply (example_response 202)] example_late_clock)
        ''id'' 1679230894 world0)) = 1
   \<and> server_replies
       (example_env [Reply (example_response 202), Reply (example_response 200)] example_slow_clock) 0
       (map Reply [example_response 202] @ [Reply (example_response 200)])
   \<and> list_all (\<lambda>y. status_code y = REPORT_STILL_NOT_AVAILABLE_STATUS_CODE) [example_response 202]
   \<and> clock_within
       (example_env [Reply (example_response 202), Reply (example_response 200)] example_slow_clock)
       1679230894 0 1
   \<and> status_code (example_response 200) = REPORT_RETRIEVED_STATUS_CODE
   \<and> json_value (example_response 200) = Return (JString ''x'')
   \<and> MAX_TIME_FOR_RETRIEVING_REPORT_IN_SECONDS <
       utcnow (example_env [Reply (example_response 202), Reply (example_response 200)]
         example_slow_clock) 1 - 1679230894
   \<and> fst (ReportChecker_connect 2
        (example_env [Reply (example_response 202), Reply (example_response 200)] example_slow_clock)
        ''id'' 1679230894 True world0) = Return ()
   \<and> writes (trace (snd (ReportChecker_connect 2
        (example_env [Reply (example_response 202), Reply (example_response 200)] example_slow_clock)
        ''id'' 1679230894 True world0))) = [''1679230894.0;x'' @ [CHR 0x5C, CHR ''n'', CHR 0x0A]]
   \<and> clock_reads (snd (ReportChecker_connect 2
        (example_env [Reply (example_response 202), Reply (example_response 200)] example_slow_clock)
        ''id'' 1679230894 True world0)) = 1"
proof -
  let ?late = "example_env [Reply (example_response 202)] example_late_clock"
  let ?slow = "example_env [Reply (example_response 202), Reply (example_response 200)]
                 example_slow_clock"
  have expired: "ReportChecker_send_request 1 ?late ''id'' 1679230894 world0 =
      (Raise (TooMuchTimePassed ''id''),
       \<lparr>requests = 1, uuids_drawn = 0, clock_reads = 1, trace = [Get ''id'']\<rparr>)"
    by (simp add: send_request_result received_def first_get_def emit_def example_defs
        while_step MAX_TIME_FOR_RETRIEVING_REPORT_IN_SECONDS_def del: ReportChecker_while.simps)
  have h1: "server_replies ?slow (requests world0)
      (map Reply [example_response 202] @ [Reply (example_response 200)])"
    by (simp add: example_defs example_slow_clock_def)
  have h2: "list_all (\<lambda>y. status_code y = REPORT_STILL_NOT_AVAILABLE_STATUS_CODE)
      [example_response 202]"
    by (simp add: example_defs status_defs)
  have h3: "clock_within ?slow 1679230894 (clock_reads world0) (length [example_response 202])"
    by (simp add: example_defs example_slow_clock_def MAX_TIME_FOR_RETRIEVING_REPORT_IN_SECONDS_def)
  have h4: "length [example_response 202] \<le> 1"
    by simp
  have h5: "status_code (example_response 200) = REPORT_RETRIEVED_STATUS_CODE"
    by (simp add: example_defs status_defs)
  have h6: "json_value (example_response 200) = Return (JString ''x'')"
    by (simp add: example_defs json_value_def)
  have h7: "MAX_TIME_FOR_RETRIEVING_REPORT_IN_SECONDS < utcnow ?slow 1 - 1679230894"
    by (simp add: example_defs example_slow_clock_def MAX_TIME_FOR_RETRIEVING_REPORT_IN_SECONDS_def)
  note a = deadline_check_follows_pending [of world0 1 ?late "''id''" 1679230894 True]
  note b = deadline_check_follows_pending [of world0 1 ?slow "''id''" 1679230894 True]
  have pending: "is_pending (server ?late 0)"
    using a expired by simp
  have ready: "fst (ReportChecker_connect 2 ?slow ''id'' 1679230894 True world0) = Return ()
      \<and> writes (trace (snd (ReportChecker_connect 2 ?slow ''id'' 1679230894 True world0))) =
          writes (trace world0) @
            [float_str ?slow 1679230894 @ '';'' @ str_of ?slow (JString ''x'') @
               [CHR 0x5C, CHR ''n'', CHR 0x0A]]
      \<and> clock_reads (snd (ReportChecker_connect 2 ?slow ''id'' 1679230894 True world0)) =
          clock_reads world0 + length [example_response 202]"
    using b h1 h2 h3 h4 h5 h6 by (simp only: numeral_2_eq_2 One_nat_def)
  show ?thesis
    using expired pending h1 h2 h3 h5 h6 h7 ready
    by (simp add: world0_def example_env_def str_of_def)
qed

subsection \<open>C10: the data of a response is read without a guard\<close>



end
